theory Spec2Isabelle
  imports Main
begin

section \<open>JavaScript strings\<close>

text \<open>
  Strings are lists of code units below 256 (\<^typ>\<open>char\<close>).  Of the regular-expression
  class \<^verbatim>\<open>\s\<close> those are TAB, LF, VT, FF, CR, SPACE and the no-break space.
\<close>

definition is_space :: "char \<Rightarrow> bool" where
  "is_space c = (c \<in> set [CHR 0x09, CHR 0x0A, CHR 0x0B, CHR 0x0C, CHR 0x0D, CHR 0x20, CHR 0xA0])"

text \<open>\<^verbatim>\<open>String.prototype.startsWith\<close> and \<^verbatim>\<open>String.prototype.includes\<close>.\<close>

fun startsWith :: "string \<Rightarrow> string \<Rightarrow> bool" where
  "startsWith s [] = True"
| "startsWith [] (p # ps) = False"
| "startsWith (c # cs) (p # ps) = (c = p \<and> startsWith cs ps)"

fun js_includes :: "string \<Rightarrow> string \<Rightarrow> bool" where
  "js_includes [] n = (n = [])"
| "js_includes (c # cs) n = (startsWith (c # cs) n \<or> js_includes cs n)"

text \<open>\<^verbatim>\<open>s.slice(-n)\<close>: the last \<open>n\<close> code units of \<open>s\<close>, all of \<open>s\<close> when it is shorter.\<close>

definition slice_last :: "nat \<Rightarrow> string \<Rightarrow> string" where
  "slice_last n s = drop (length s - n) s"

text \<open>Decimal rendering of numbers inside template literals.\<close>

definition digit_char :: "nat \<Rightarrow> char" where
  "digit_char d = ''0123456789'' ! d"

fun show_nat :: "nat \<Rightarrow> string" where
  "show_nat n = (if n < 10 then [digit_char n] else show_nat (n div 10) @ [digit_char (n mod 10)])"

declare show_nat.simps [simp del]

definition show_int :: "int \<Rightarrow> string" where
  "show_int i = (if i < 0 then CHR ''-'' # show_nat (nat (- i)) else show_nat (nat i))"

subsection \<open>Replacement with a global pattern of literal alternatives\<close>

text \<open>
  \<^verbatim>\<open>GetSubstitution\<close> of ECMAScript for a pattern without capture groups:
  in the replacement text \<^verbatim>\<open>$$\<close> stands for a dollar sign, \<^verbatim>\<open>$&\<close> for the matched text,
  \<^verbatim>\<open>$`\<close> for the text before the match and \<^verbatim>\<open>$'\<close> for the text after it; any
  other dollar sign is literal.
\<close>

fun get_substitution :: "string \<Rightarrow> string \<Rightarrow> string \<Rightarrow> string \<Rightarrow> string" where
  "get_substitution m b a [] = []"
| "get_substitution m b a [c] = [c]"
| "get_substitution m b a (c # d # r) =
     (if c = CHR ''$'' \<and> d = CHR ''$'' then CHR ''$'' # get_substitution m b a r
      else if c = CHR ''$'' \<and> d = CHR ''&'' then m @ get_substitution m b a r
      else if c = CHR ''$'' \<and> d = CHR 0x60 then b @ get_substitution m b a r
      else if c = CHR ''$'' \<and> d = CHR 0x27 then a @ get_substitution m b a r
      else c # get_substitution m b a (d # r))"

text \<open>The first alternative of \<^verbatim>\<open>/p1|p2|.../\<close> that matches at the start of \<open>s\<close>.\<close>

fun first_match :: "string list \<Rightarrow> string \<Rightarrow> string option" where
  "first_match [] s = None"
| "first_match (p # ps) s = (if startsWith s p then Some p else first_match ps s)"

text \<open>
  \<^verbatim>\<open>s.replace(/p1|p2|.../g, repl)\<close> for non-empty literal alternatives, scanning from
  the left; \<open>pre\<close> is the part of the subject already passed.
\<close>

fun replace_from :: "string list \<Rightarrow> string \<Rightarrow> string \<Rightarrow> string \<Rightarrow> string" where
  "replace_from alts repl pre [] = []"
| "replace_from alts repl pre (c # cs) =
     (case first_match alts (c # cs) of
        Some (x # xs) \<Rightarrow>
          get_substitution (x # xs) pre (drop (length xs) cs) repl
            @ replace_from alts repl (pre @ x # xs) (drop (length xs) cs)
      | _ \<Rightarrow> c # replace_from alts repl (pre @ [c]) cs)"

definition replace_all :: "string list \<Rightarrow> string \<Rightarrow> string \<Rightarrow> string" where
  "replace_all alts repl s = replace_from alts repl [] s"

subsection \<open>Splitting a command line into arguments\<close>

text \<open>\<^verbatim>\<open>[^"]*"\<close> after an opening quote: the body up to the next quote, and what follows it.\<close>

fun close_quote :: "string \<Rightarrow> (string \<times> string) option" where
  "close_quote [] = None"
| "close_quote (c # cs) =
     (if c = CHR 0x22 then Some ([], cs)
      else (case close_quote cs of None \<Rightarrow> None | Some (b, r) \<Rightarrow> Some (c # b, r)))"

lemma close_quote_length: "close_quote s = Some (b, r) \<Longrightarrow> length r < length s"
  by (induction s arbitrary: b r) (auto split: if_splits option.splits)

text \<open>
  The match of \<^verbatim>\<open>(?:[^\s"]+|"[^"]*")+\<close> at the start of the string, with the rest; the
  match is empty when the pattern does not match there.
\<close>

function match_arg :: "string \<Rightarrow> string \<times> string" where
  "match_arg [] = ([], [])"
| "match_arg (c # cs) =
     (if c = CHR 0x22 then
        (case close_quote cs of
           None \<Rightarrow> ([], c # cs)
         | Some (b, r) \<Rightarrow> (case match_arg r of (m, r') \<Rightarrow> (c # b @ CHR 0x22 # m, r')))
      else if is_space c then ([], c # cs)
      else (case match_arg cs of (m, r') \<Rightarrow> (c # m, r')))"
  by pat_completeness auto
termination
  by (relation "measure length") (auto dest: close_quote_length)

lemma match_arg_length: "match_arg s = (m, r) \<Longrightarrow> length r \<le> length s \<and> (m \<noteq> [] \<longrightarrow> length r < length s)"
proof (induction s arbitrary: m r rule: match_arg.induct)
  case 1
  then show ?case by simp
next
  case (2 c cs)
  show ?case
  proof (cases "c = CHR 0x22")
    case True
    show ?thesis
    proof (cases "close_quote cs")
      case None
      with True "2.prems" show ?thesis by simp
    next
      case (Some p)
      obtain b r0 where p: "p = (b, r0)" by (cases p)
      obtain m0 r1 where mr: "match_arg r0 = (m0, r1)" by (cases "match_arg r0")
      from "2.IH"(1) [OF True] Some p mr have "length r1 \<le> length r0" by simp
      moreover from Some p have "length r0 < length cs" by (simp add: close_quote_length)
      moreover from True Some p mr "2.prems" have "r = r1" by simp
      ultimately show ?thesis by simp
    qed
  next
    case False
    show ?thesis
    proof (cases "is_space c")
      case True
      with False "2.prems" show ?thesis by auto
    next
      case sp: False
      obtain m0 r1 where mr: "match_arg cs = (m0, r1)" by (cases "match_arg cs")
      from "2.IH"(2) [OF False sp mr] have "length r1 \<le> length cs" by simp
      moreover from False sp mr "2.prems" have "r = r1" by simp
      ultimately show ?thesis by simp
    qed
  qed
qed

declare match_arg.simps [simp del]

text \<open>\<^verbatim>\<open>s.match(/(?:[^\s"]+|"[^"]*")+/g) || []\<close>: all matches, from left to right.\<close>

function match_args :: "string \<Rightarrow> string list" where
  "match_args [] = []"
| "match_args (c # cs) =
     (case match_arg (c # cs) of
        ([], r) \<Rightarrow> match_args cs
      | (x # xs, r) \<Rightarrow> (x # xs) # match_args r)"
  by pat_completeness auto
termination
proof (relation "measure length")
  show "wf (measure length)" by simp
next
  fix c :: char and cs x y
  show "(cs, c # cs) \<in> measure length" by simp
next
  fix c :: char and cs x y x21 x22
  assume "(x, y) = match_arg (c # cs)" and "x = x21 # x22"
  then have "match_arg (c # cs) = (x21 # x22, y)" by simp
  from match_arg_length [OF this] show "(y, c # cs) \<in> measure length" by simp
qed

text \<open>\<^verbatim>\<open>arg.replace(/^"|"$/g, '')\<close>: one leading and one trailing quote are removed.\<close>

definition strip_quotes :: "string \<Rightarrow> string" where
  "strip_quotes a =
     (let a1 = (case a of [] \<Rightarrow> [] | c # cs \<Rightarrow> if c = CHR 0x22 then cs else c # cs)
      in if a1 \<noteq> [] \<and> last a1 = CHR 0x22 then butlast a1 else a1)"

definition command_args :: "string \<Rightarrow> string list" where
  "command_args commandTemplate = map strip_quotes (match_args commandTemplate)"


section \<open>Settings\<close>

text \<open>
  The part of \<^verbatim>\<open>getSettings()\<close> that the stream and DVR engines read.  A numeric
  setting that is missing (or not a number) is \<open>None\<close>.  \<^verbatim>\<open>getSettings\<close> always returns
  a \<^verbatim>\<open>dvr\<close> block and valid log levels.
\<close>

record profile =
  profile_id :: string
  profile_name :: string
  command :: string

record user_agent =
  ua_id :: string
  ua_name :: string
  ua_value :: string

record dvr_settings =
  preBufferMinutes :: "int option"
  postBufferMinutes :: "int option"
  maxConcurrentRecordings :: "int option"
  activeRecordingProfileId :: "string option"
  recordingProfiles :: "profile list"

record settings =
  userAgents :: "user_agent list"
  streamProfiles :: "profile list"
  castProfiles :: "profile list"
  dvr :: dvr_settings
  activeUserAgentId :: "string option"
  playerLogLevel :: string
  dvrLogLevel :: string

record channel =
  ch_id :: string
  ch_url :: string
  ch_name :: string

text \<open>\<^verbatim>\<open>list.find(p => p.id === wanted)\<close>, where \<open>wanted\<close> may be undefined or null.\<close>

definition find_profile :: "profile list \<Rightarrow> string option \<Rightarrow> profile option" where
  "find_profile ps wanted = List.find (\<lambda>p. Some (profile_id p) = wanted) ps"

definition find_user_agent :: "user_agent list \<Rightarrow> string option \<Rightarrow> user_agent option" where
  "find_user_agent uas wanted = List.find (\<lambda>ua. Some (ua_id ua) = wanted) uas"

section \<open>Time values\<close>

text \<open>
  A time value is what \<^verbatim>\<open>Date.prototype.getTime\<close> returns: milliseconds since the epoch,
  or NaN (\<open>None\<close>) for an invalid date.  Every comparison with NaN is false.  The TEXT
  columns \<^verbatim>\<open>startTime\<close> and \<^verbatim>\<open>endTime\<close> are represented by the time value that
  \<^verbatim>\<open>new Date(text)\<close> has; for a text written by \<^verbatim>\<open>toISOString\<close> that is the time value
  it was written from.
\<close>

type_synonym js_time = "int option"

definition js_lt :: "js_time \<Rightarrow> js_time \<Rightarrow> bool" where
  "js_lt a b = (case (a, b) of (Some x, Some y) \<Rightarrow> x < y | _ \<Rightarrow> False)"

definition js_le :: "js_time \<Rightarrow> js_time \<Rightarrow> bool" where
  "js_le a b = (case (a, b) of (Some x, Some y) \<Rightarrow> x \<le> y | _ \<Rightarrow> False)"

definition js_gt :: "js_time \<Rightarrow> js_time \<Rightarrow> bool" where
  "js_gt a b = js_lt b a"

text \<open>\<^verbatim>\<open>new Date(number)\<close>: a time value beyond 8.64e15 ms from the epoch is invalid.\<close>

definition new_Date :: "js_time \<Rightarrow> js_time" where
  "new_Date t = (case t of None \<Rightarrow> None
                 | Some v \<Rightarrow> if \<bar>v\<bar> \<le> 8640000000000000 then Some v else None)"

text \<open>
  \<^verbatim>\<open>Date.prototype.toISOString\<close> of a valid time value: the text that the schedule
  endpoint stores.  The calendar date is computed from the day number in the proleptic
  Gregorian calendar; years outside 0 to 9999 are written with a sign and six digits.
\<close>

definition pad2 :: "nat \<Rightarrow> string" where
  "pad2 n = [digit_char (n div 10 mod 10), digit_char (n mod 10)]"

definition pad3 :: "nat \<Rightarrow> string" where
  "pad3 n = digit_char (n div 100 mod 10) # pad2 n"

definition pad4 :: "nat \<Rightarrow> string" where
  "pad4 n = digit_char (n div 1000 mod 10) # pad3 n"

definition pad6 :: "nat \<Rightarrow> string" where
  "pad6 n = digit_char (n div 100000 mod 10) # digit_char (n div 10000 mod 10) # pad4 n"

definition civil_from_days :: "int \<Rightarrow> int \<times> int \<times> int" where
  "civil_from_days day =
     (let z = day + 719468;
          era = z div 146097;
          doe = z mod 146097;
          yoe = (doe - doe div 1460 + doe div 36524 - doe div 146096) div 365;
          doy = doe - (365 * yoe + yoe div 4 - yoe div 100);
          mp = (5 * doy + 2) div 153;
          d = doy - (153 * mp + 2) div 5 + 1;
          m = (if mp < 10 then mp + 3 else mp - 9);
          y = yoe + era * 400 + (if m \<le> 2 then 1 else 0)
      in (y, m, d))"

fun iso_text :: "int \<times> int \<times> int \<Rightarrow> nat \<Rightarrow> string" where
  "iso_text (y, m, d) ms =
     (if 0 \<le> y \<and> y \<le> 9999 then pad4 (nat y)
      else (if y < 0 then ''-'' else ''+'') @ pad6 (nat \<bar>y\<bar>))
     @ ''-'' @ pad2 (nat m) @ ''-'' @ pad2 (nat d)
     @ ''T'' @ pad2 (ms div 3600000) @ '':'' @ pad2 (ms div 60000 mod 60)
     @ '':'' @ pad2 (ms div 1000 mod 60) @ ''.'' @ pad3 (ms mod 1000) @ ''Z''"

definition toISOString :: "int \<Rightarrow> string" where
  "toISOString t = iso_text (civil_from_days (t div 86400000)) (nat (t mod 86400000))"

text \<open>\<^verbatim>\<open>Math.round(ms / 1000)\<close> on an integral number of milliseconds (halves round up).\<close>

definition round_seconds :: "js_time \<Rightarrow> int option" where
  "round_seconds d = map_option (\<lambda>ms. (ms + 500) div 1000) d"

definition js_minus :: "js_time \<Rightarrow> js_time \<Rightarrow> js_time" where
  "js_minus a b = (case (a, b) of (Some x, Some y) \<Rightarrow> Some (x - y) | _ \<Rightarrow> None)"

section \<open>Sessions\<close>

text \<open>What the handlers read from \<^verbatim>\<open>req.session\<close>.\<close>

record session =
  userId :: nat
  isAdmin :: bool

section \<open>DVR engine\<close>

subsection \<open>Tables and in-memory state\<close>

text \<open>
  The tables are lists of rows.  A database statement is taken to succeed: where one
  fails, the handlers log the error or answer 500 and change nothing else.
\<close>

datatype job_status = Scheduled | Recording | Completed | Error | Cancelled

text \<open>A row of \<^verbatim>\<open>dvr_jobs\<close> (the column \<^verbatim>\<open>id\<close> is \<open>job_id\<close>).\<close>

record dvr_job =
  job_id :: nat
  user_id :: nat
  channelId :: string
  channelName :: string
  programTitle :: string
  startTime :: js_time
  endTime :: js_time
  status :: job_status
  ffmpeg_pid :: "nat option"
  filePath :: "string option"
  profileId :: "string option"
  userAgentId :: "string option"
  job_preBufferMinutes :: int
  job_postBufferMinutes :: int
  errorMessage :: "string option"

text \<open>A row of \<^verbatim>\<open>dvr_recordings\<close>.\<close>

record dvr_recording =
  rec_job_id :: nat
  rec_user_id :: nat
  rec_channelName :: string
  rec_programTitle :: string
  rec_startTime :: js_time
  durationSeconds :: "int option"
  fileSizeBytes :: nat
  rec_filePath :: string

text \<open>
  The jobs of the \<^verbatim>\<open>node-schedule\<close> library: \<^verbatim>\<open>schedule.scheduleJob(date, fn)\<close> arms a
  one-shot job and returns its handle (here its index), or null when the date is invalid
  or already over; \<^verbatim>\<open>handle.cancel()\<close> disarms it.
\<close>

datatype timer_action = StartRecordingOf dvr_job | StopRecordingOf nat

datatype timer_status = Pending | Disarmed | Fired

record timer =
  fire_at :: int
  action :: timer_action
  timer_status :: timer_status

datatype signal = SIGINT | SIGKILL

record dvr_file =
  size :: nat
  mode :: nat

record dvr_state =
  dvr_jobs :: "dvr_job list"
  dvr_jobs_seq :: nat
  dvr_recordings :: "dvr_recording list"
  activeDvrJobs :: "nat \<rightharpoonup> nat option"
  runningFFmpegProcesses :: "nat \<rightharpoonup> nat option"
  timers :: "timer list"
  signals :: "(nat \<times> signal) list"
  rec_spawned :: "string list list"
  files :: "string \<rightharpoonup> dvr_file"

text \<open>
  What the handlers read from outside: the settings, the channels parsed from the M3U
  file, and the pid that \<^verbatim>\<open>spawn\<close> reports for the n-th recording process (undefined
  when the process could not be started).
\<close>

record env =
  env_settings :: settings
  env_channels :: "channel list"
  spawn_pid :: "nat \<Rightarrow> nat option"

text \<open>\<^verbatim>\<open>UPDATE dvr_jobs SET ... WHERE id = ?\<close>.\<close>

definition update_job :: "nat \<Rightarrow> (dvr_job \<Rightarrow> dvr_job) \<Rightarrow> dvr_state \<Rightarrow> dvr_state" where
  "update_job i f st = st\<lparr>dvr_jobs := map (\<lambda>r. if job_id r = i then f r else r) (dvr_jobs st)\<rparr>"

definition scheduleJob :: "int \<Rightarrow> js_time \<Rightarrow> timer_action \<Rightarrow> dvr_state \<Rightarrow> nat option \<times> dvr_state" where
  "scheduleJob now date act st =
     (case date of
        None \<Rightarrow> (None, st)
      | Some t \<Rightarrow>
          if t < now then (None, st)
          else (Some (length (timers st)),
                st\<lparr>timers := timers st @ [\<lparr>fire_at = t, action = act, timer_status = Pending\<rparr>]\<rparr>))"

definition cancel :: "nat \<Rightarrow> dvr_state \<Rightarrow> dvr_state" where
  "cancel h st =
     (if h < length (timers st) \<and> timer_status (timers st ! h) = Pending
      then st\<lparr>timers := (timers st)[h := (timers st ! h)\<lparr>timer_status := Disarmed\<rparr>]\<rparr>
      else st)"

subsection \<open>Stopping and starting a recording\<close>

text \<open>
  \<^verbatim>\<open>stopRecording(jobId)\<close>.  \<open>kill_throws\<close> says whether \<^verbatim>\<open>process.kill(pid, 'SIGINT')\<close>
  throws; the signals attempted are logged in order.
\<close>

definition stopRecording :: "bool \<Rightarrow> nat \<Rightarrow> dvr_state \<Rightarrow> dvr_state" where
  "stopRecording kill_throws jobId st =
     (case runningFFmpegProcesses st jobId of
        Some (Some pid) \<Rightarrow>
          if pid = 0 then st
          else if kill_throws then st\<lparr>signals := signals st @ [(pid, SIGINT), (pid, SIGKILL)]\<rparr>
          else st\<lparr>signals := signals st @ [(pid, SIGINT)]\<rparr>
      | _ \<Rightarrow> st)"

definition set_error :: "string \<Rightarrow> nat \<Rightarrow> dvr_state \<Rightarrow> dvr_state" where
  "set_error msg i st =
     update_job i (\<lambda>r. r\<lparr>status := Error, ffmpeg_pid := None, errorMessage := Some msg\<rparr>) st"

text \<open>How a missing id of a row read from the table prints in a template literal.\<close>

definition show_null :: "string option \<Rightarrow> string" where
  "show_null x = (case x of None \<Rightarrow> ''null'' | Some s \<Rightarrow> s)"

definition is_alnum :: "char \<Rightarrow> bool" where
  "is_alnum c =
     (let n = (of_char c :: nat)
      in (97 \<le> n \<and> n \<le> 122) \<or> (65 \<le> n \<and> n \<le> 90) \<or> (48 \<le> n \<and> n \<le> 57))"

definition to_lower :: "char \<Rightarrow> char" where
  "to_lower c =
     (let n = (of_char c :: nat) in if 65 \<le> n \<and> n \<le> 90 then char_of (n + 32) else c)"

text \<open>\<^verbatim>\<open>title.replace(/[^a-z0-9]/gi, '_').toLowerCase()\<close>.\<close>

definition sanitize_title :: "string \<Rightarrow> string" where
  "sanitize_title t = map to_lower (map (\<lambda>c. if is_alnum c then c else CHR ''_'') t)"

definition DVR_DIR :: string where
  "DVR_DIR = ''/dvr''"

definition fullFilePath :: "dvr_job \<Rightarrow> profile \<Rightarrow> string" where
  "fullFilePath job recProfile =
     (let fileExtension = (if js_includes (command recProfile) ''-f mp4'' then ''.mp4'' else ''.ts'');
          safeFilename = show_nat (job_id job) @ ''_'' @ sanitize_title (programTitle job) @ fileExtension
      in DVR_DIR @ ''/'' @ safeFilename)"

text \<open>The \<^verbatim>\<open>commandTemplate\<close> of a recording process, after substitution, and its argument vector.\<close>

definition recording_commandTemplate :: "settings \<Rightarrow> profile \<Rightarrow> string \<Rightarrow> string \<Rightarrow> string \<Rightarrow> string" where
  "recording_commandTemplate s recProfile streamUrlToRecord userAgentValue path =
     ''-v level+'' @ dvrLogLevel s @ '' '' @
       replace_all [''{filePath}''] path
         (replace_all [''{userAgent}''] userAgentValue
            (replace_all [''{streamUrl}''] streamUrlToRecord (command recProfile)))"

definition recording_args :: "settings \<Rightarrow> profile \<Rightarrow> string \<Rightarrow> string \<Rightarrow> string \<Rightarrow> string list" where
  "recording_args s recProfile streamUrlToRecord userAgentValue path =
     command_args (recording_commandTemplate s recProfile streamUrlToRecord userAgentValue path)"

definition startRecording :: "env \<Rightarrow> dvr_job \<Rightarrow> dvr_state \<Rightarrow> dvr_state" where
  "startRecording e job st =
     (case List.find (\<lambda>c. ch_id c = channelId job) (env_channels e) of
        None \<Rightarrow> set_error (''Channel ID '' @ channelId job @ '' not found in M3U.'') (job_id job) st
      | Some channel \<Rightarrow>
     (case find_profile (recordingProfiles (dvr (env_settings e))) (profileId job) of
        None \<Rightarrow> set_error (''Recording profile ID '' @ [CHR 0x22] @ show_null (profileId job)
                            @ [CHR 0x22] @ '' not found.'') (job_id job) st
      | Some recProfile \<Rightarrow>
     (case find_user_agent (userAgents (env_settings e)) (userAgentId job) of
        None \<Rightarrow> set_error ''User agent not found.'' (job_id job) st
      | Some userAgent \<Rightarrow>
          (let path = fullFilePath job recProfile;
               args = recording_args (env_settings e) recProfile (ch_url channel) (ua_value userAgent) path;
               pid = spawn_pid e (length (rec_spawned st));
               st1 = st\<lparr>rec_spawned := rec_spawned st @ [args],
                        runningFFmpegProcesses := (runningFFmpegProcesses st)(job_id job \<mapsto> pid)\<rparr>
           in update_job (job_id job)
                (\<lambda>r. r\<lparr>status := Recording, ffmpeg_pid := pid, filePath := Some path\<rparr>) st1))))"

subsection \<open>Exit of a recording process\<close>

text \<open>
  The \<^verbatim>\<open>close\<close> handler of \<^verbatim>\<open>startRecording\<close>, in two steps.  The handler itself forgets
  the pid, decides whether the stop was intended, and normalises the permissions of the
  output file (\<open>chmod_throws\<close>: \<^verbatim>\<open>fs.chmodSync\<close> failed, which is only logged).
\<close>

definition wasStoppedIntentionally :: "string \<Rightarrow> int option \<Rightarrow> bool" where
  "wasStoppedIntentionally ffmpegErrorOutput code =
     (js_includes ffmpegErrorOutput ''Exiting normally, received signal 2'' \<or> code = Some 255)"

definition on_close :: "dvr_job \<Rightarrow> string \<Rightarrow> bool \<Rightarrow> dvr_state \<Rightarrow> dvr_state" where
  "on_close job path chmod_throws st =
     (let st1 = st\<lparr>runningFFmpegProcesses := (runningFFmpegProcesses st)(job_id job := None)\<rparr>
      in case files st1 path of
           None \<Rightarrow> st1
         | Some f \<Rightarrow> if chmod_throws then st1
                     else st1\<lparr>files := (files st1)(path \<mapsto> f\<lparr>mode := 438\<rparr>)\<rparr>)"

text \<open>
  Then the callback of \<^verbatim>\<open>fs.stat\<close> classifies the exit.  The exit code is null
  (\<open>None\<close>) when the process was ended by a signal.
\<close>

datatype stat_result = StatErr string | Stats nat

definition show_code :: "int option \<Rightarrow> string" where
  "show_code code = (case code of None \<Rightarrow> ''null'' | Some c \<Rightarrow> show_int c)"

definition finalErrorMessage :: "int option \<Rightarrow> stat_result \<Rightarrow> string \<Rightarrow> string" where
  "finalErrorMessage code res ffmpegErrorOutput =
     ''Recording failed. FFmpeg exit code: '' @ show_code code @ ''. ''
       @ (case res of StatErr msg \<Rightarrow> ''File stat error: '' @ msg | Stats n \<Rightarrow> [])
       @ ''. FFmpeg output: '' @ slice_last 1000 ffmpegErrorOutput"

definition on_stat :: "dvr_job \<Rightarrow> string \<Rightarrow> string \<Rightarrow> int option \<Rightarrow> stat_result \<Rightarrow> dvr_state \<Rightarrow> dvr_state" where
  "on_stat job path ffmpegErrorOutput code res st =
     (case res of
        Stats sz \<Rightarrow>
          if (code = Some 0 \<or> wasStoppedIntentionally ffmpegErrorOutput code) \<and> sz > 1024 then
            (let durationSeconds = js_minus (endTime job) (startTime job);
                 row = \<lparr>rec_job_id = job_id job, rec_user_id = user_id job,
                        rec_channelName = channelName job, rec_programTitle = programTitle job,
                        rec_startTime = startTime job, durationSeconds = round_seconds durationSeconds,
                        fileSizeBytes = sz, rec_filePath = path\<rparr>
             in update_job (job_id job) (\<lambda>r. r\<lparr>status := Completed, ffmpeg_pid := None\<rparr>)
                  (st\<lparr>dvr_recordings := dvr_recordings st @ [row]\<rparr>))
          else
            (let st1 = set_error (finalErrorMessage code res ffmpegErrorOutput) (job_id job) st
             in if sz \<le> 1024 then st1\<lparr>files := (files st1)(path := None)\<rparr> else st1)
      | StatErr msg \<Rightarrow> set_error (finalErrorMessage code res ffmpegErrorOutput) (job_id job) st)"

text \<open>The \<^verbatim>\<open>error\<close> handler: the process could not be spawned.\<close>

definition on_error :: "dvr_job \<Rightarrow> string \<Rightarrow> dvr_state \<Rightarrow> dvr_state" where
  "on_error job msg st =
     set_error (''Failed to spawn ffmpeg process: '' @ msg) (job_id job)
       (st\<lparr>runningFFmpegProcesses := (runningFFmpegProcesses st)(job_id job := None)\<rparr>)"

subsection \<open>Arming a job\<close>

text \<open>
  The block \<^verbatim>\<open>if (activeDvrJobs.has(id)) { activeDvrJobs.get(id)?.cancel(); activeDvrJobs.delete(id); }\<close>.
\<close>

definition forget_start_job :: "nat \<Rightarrow> dvr_state \<Rightarrow> dvr_state" where
  "forget_start_job i st =
     (case activeDvrJobs st i of
        None \<Rightarrow> st
      | Some h \<Rightarrow> (case h of None \<Rightarrow> st | Some t \<Rightarrow> cancel t st)
                   \<lparr>activeDvrJobs := (activeDvrJobs st)(i := None)\<rparr>)"

text \<open>\<^verbatim>\<open>scheduleDvrJob(job)\<close>, called when the clock reads \<open>now\<close>.\<close>

definition scheduleDvrJob :: "env \<Rightarrow> int \<Rightarrow> dvr_job \<Rightarrow> dvr_state \<Rightarrow> dvr_state" where
  "scheduleDvrJob e now job st0 =
     (let st = forget_start_job (job_id job) st0
      in if js_le (endTime job) (Some now) then
           (if status job = Scheduled then
              update_job (job_id job)
                (\<lambda>r. r\<lparr>status := Error,
                        errorMessage := Some ''Job was scheduled for a time in the past.''\<rparr>) st
            else st)
         else
           (let st1 = (if js_gt (startTime job) (Some now) then
                         (let startJob = scheduleJob now (startTime job) (StartRecordingOf job) st
                          in (snd startJob)\<lparr>activeDvrJobs :=
                                (activeDvrJobs (snd startJob))(job_id job \<mapsto> fst startJob)\<rparr>)
                       else startRecording e job st)
            in snd (scheduleJob now (endTime job) (StopRecordingOf (job_id job)) st1)))"

text \<open>An armed job comes due: the library runs its callback once.\<close>

definition fire_timer :: "env \<Rightarrow> bool \<Rightarrow> nat \<Rightarrow> dvr_state \<Rightarrow> dvr_state" where
  "fire_timer e kill_throws h st =
     (if h < length (timers st) \<and> timer_status (timers st ! h) = Pending then
        (let st1 = st\<lparr>timers := (timers st)[h := (timers st ! h)\<lparr>timer_status := Fired\<rparr>]\<rparr>
         in case action (timers st ! h) of
              StartRecordingOf job \<Rightarrow> startRecording e job st1
            | StopRecordingOf jobId \<Rightarrow> stopRecording kill_throws jobId st1)
      else st)"

subsection \<open>Conflicts\<close>

definition maxConcurrent :: "settings \<Rightarrow> int" where
  "maxConcurrent s =
     (case maxConcurrentRecordings (dvr s) of None \<Rightarrow> 1 | Some m \<Rightarrow> if m = 0 then 1 else m)"

definition checkForConflicts :: "settings \<Rightarrow> dvr_job \<Rightarrow> nat \<Rightarrow> dvr_state \<Rightarrow> dvr_job list" where
  "checkForConflicts s newJob uid st =
     (let scheduledJobs = filter (\<lambda>j. user_id j = uid \<and> status j = Scheduled) (dvr_jobs st);
          newStart = startTime newJob;
          newEnd = endTime newJob;
          conflictingJobs = filter (\<lambda>existingJob.
              js_lt newStart (endTime existingJob) \<and> js_gt newEnd (startTime existingJob)) scheduledJobs
      in if int (length conflictingJobs) \<ge> maxConcurrent s then conflictingJobs else [])"

subsection \<open>The DVR endpoints\<close>

text \<open>
  \<^verbatim>\<open>POST /api/dvr/schedule\<close>.  \<open>programStart\<close> and \<open>programStop\<close> are the time values of
  \<^verbatim>\<open>new Date(programStart)\<close> and \<^verbatim>\<open>new Date(programStop)\<close>.  A job that has no id yet
  carries \<open>job_id = 0\<close> (ids start at 1).  \<^verbatim>\<open>toISOString\<close> throws a RangeError on an
  invalid date.
\<close>

record schedule_request =
  req_channelId :: string
  req_channelName :: string
  req_programTitle :: string
  programStart :: js_time
  programStop :: js_time

datatype schedule_response = RangeError | Conflict409 dvr_job "dvr_job list" | Created201 dvr_job

definition buffer_ms :: "int option \<Rightarrow> int" where
  "buffer_ms minutes = (case minutes of None \<Rightarrow> 0 | Some m \<Rightarrow> m) * 60 * 1000"

definition insert_job :: "dvr_job \<Rightarrow> dvr_state \<Rightarrow> dvr_job \<times> dvr_state" where
  "insert_job newJob st =
     (let jobWithId = newJob\<lparr>job_id := Suc (dvr_jobs_seq st)\<rparr>
      in (jobWithId, st\<lparr>dvr_jobs := dvr_jobs st @ [jobWithId], dvr_jobs_seq := Suc (dvr_jobs_seq st)\<rparr>))"

text \<open>The window of the new job: the program window widened by the configured buffers.\<close>

definition job_window :: "settings \<Rightarrow> schedule_request \<Rightarrow> js_time \<times> js_time" where
  "job_window s req =
     (let dvrSettings = dvr s;
          preBuffer = buffer_ms (preBufferMinutes dvrSettings);
          postBuffer = buffer_ms (postBufferMinutes dvrSettings)
      in (new_Date (map_option (\<lambda>t. t - preBuffer) (new_Date (programStart req))),
          new_Date (map_option (\<lambda>t. t + postBuffer) (new_Date (programStop req)))))"

definition post_schedule :: "env \<Rightarrow> int \<Rightarrow> session \<Rightarrow> schedule_request \<Rightarrow> dvr_state \<Rightarrow> schedule_response \<times> dvr_state" where
  "post_schedule e now sess req st =
     (let dvrSettings = dvr (env_settings e);
          (start, stop) = job_window (env_settings e) req
      in if start = None \<or> stop = None then (RangeError, st)
         else
           (let newJob = \<lparr>job_id = 0, user_id = userId sess, channelId = req_channelId req,
                          channelName = req_channelName req, programTitle = req_programTitle req,
                          startTime = start, endTime = stop, status = Scheduled,
                          ffmpeg_pid = None, filePath = None,
                          profileId = activeRecordingProfileId dvrSettings,
                          userAgentId = activeUserAgentId (env_settings e),
                          job_preBufferMinutes = (case preBufferMinutes dvrSettings of None \<Rightarrow> 0 | Some m \<Rightarrow> m),
                          job_postBufferMinutes = (case postBufferMinutes dvrSettings of None \<Rightarrow> 0 | Some m \<Rightarrow> m),
                          errorMessage = None\<rparr>;
                conflictingJobs = checkForConflicts (env_settings e) newJob (userId sess) st
            in if length conflictingJobs > 0 then (Conflict409 newJob conflictingJobs, st)
               else (case insert_job newJob st of
                       (jobWithId, st1) \<Rightarrow> (Created201 jobWithId, scheduleDvrJob e now jobWithId st1))))"

datatype api_response = Ok200 | BadRequest400 | NotFound404

text \<open>The rows an endpoint may touch: an admin any job, a user only their own.\<close>

definition authorized :: "session \<Rightarrow> nat \<Rightarrow> dvr_job \<Rightarrow> bool" where
  "authorized sess jobId r = (job_id r = jobId \<and> (isAdmin sess \<or> user_id r = userId sess))"

definition set_status_where :: "session \<Rightarrow> nat \<Rightarrow> job_status \<Rightarrow> dvr_state \<Rightarrow> api_response \<times> dvr_state" where
  "set_status_where sess jobId s st =
     (if \<exists>r \<in> set (dvr_jobs st). authorized sess jobId r
      then (Ok200, st\<lparr>dvr_jobs := map (\<lambda>r. if authorized sess jobId r then r\<lparr>status := s\<rparr> else r) (dvr_jobs st)\<rparr>)
      else (NotFound404, st))"

text \<open>\<^verbatim>\<open>DELETE /api/dvr/jobs/:id\<close> (cancel).\<close>

definition delete_job :: "session \<Rightarrow> nat \<Rightarrow> dvr_state \<Rightarrow> api_response \<times> dvr_state" where
  "delete_job sess jobId st = set_status_where sess jobId Cancelled (forget_start_job jobId st)"

text \<open>\<^verbatim>\<open>POST /api/dvr/jobs/:id/stop\<close>.\<close>

definition post_stop :: "bool \<Rightarrow> session \<Rightarrow> nat \<Rightarrow> dvr_state \<Rightarrow> api_response \<times> dvr_state" where
  "post_stop kill_throws sess jobId st =
     set_status_where sess jobId Completed (stopRecording kill_throws jobId st)"

text \<open>
  \<^verbatim>\<open>PUT /api/dvr/jobs/:id\<close> (reschedule).  A time missing from the body is \<open>None\<close>; a
  time given is the time value of its text.
\<close>

definition put_job :: "env \<Rightarrow> int \<Rightarrow> session \<Rightarrow> nat \<Rightarrow> js_time option \<Rightarrow> js_time option \<Rightarrow> dvr_state \<Rightarrow> api_response \<times> dvr_state" where
  "put_job e now sess jobId newStart newEnd st =
     (case (newStart, newEnd) of
        (Some start, Some stop) \<Rightarrow>
          (case List.find (authorized sess jobId) (dvr_jobs st) of
             None \<Rightarrow> (NotFound404, st)
           | Some job \<Rightarrow>
               if status job \<noteq> Scheduled then (BadRequest400, st)
               else
                 (let st1 = update_job jobId (\<lambda>r. r\<lparr>startTime := start, endTime := stop\<rparr>) st;
                      updatedJob = job\<lparr>startTime := start, endTime := stop\<rparr>
                  in (Ok200, scheduleDvrJob e now updatedJob st1)))
      | _ \<Rightarrow> (BadRequest400, st))"

text \<open>\<^verbatim>\<open>DELETE /api/dvr/jobs/:id/history\<close>.\<close>

definition delete_history :: "session \<Rightarrow> nat \<Rightarrow> dvr_state \<Rightarrow> api_response \<times> dvr_state" where
  "delete_history sess jobId st =
     (case List.find (authorized sess jobId) (dvr_jobs st) of
        None \<Rightarrow> (NotFound404, st)
      | Some job \<Rightarrow>
          if status job \<in> {Error, Cancelled, Completed}
          then (Ok200, st\<lparr>dvr_jobs := filter (\<lambda>r. job_id r \<noteq> jobId) (dvr_jobs st)\<rparr>)
          else (BadRequest400, st))"

subsection \<open>Startup\<close>

text \<open>
  The job loading that runs once the database is open.  \<open>clock i\<close> is the time read
  while job \<open>i\<close> is being armed.
\<close>

definition load_jobs :: "env \<Rightarrow> (nat \<Rightarrow> int) \<Rightarrow> dvr_state \<Rightarrow> dvr_state" where
  "load_jobs e clock st =
     (let st1 = st\<lparr>dvr_jobs := map (\<lambda>r. if status r = Recording
                    then r\<lparr>status := Error, errorMessage := Some ''Server restarted during recording.''\<rparr>
                    else r) (dvr_jobs st)\<rparr>;
          jobs = filter (\<lambda>r. status r = Scheduled) (dvr_jobs st1)
      in fold (\<lambda>job. scheduleDvrJob e (clock (job_id job)) job) jobs st1)"

text \<open>The identity and the window of a row.\<close>

definition window_of :: "dvr_job \<Rightarrow> nat \<times> js_time \<times> js_time" where
  "window_of r = (job_id r, startTime r, endTime r)"

text \<open>The row with a given id, and the job a timer belongs to.\<close>

definition job_row :: "nat \<Rightarrow> dvr_state \<Rightarrow> dvr_job option" where
  "job_row i st = List.find (\<lambda>r. job_id r = i) (dvr_jobs st)"

definition timer_job :: "timer \<Rightarrow> nat" where
  "timer_job t = (case action t of StartRecordingOf job \<Rightarrow> job_id job | StopRecordingOf i \<Rightarrow> i)"

text \<open>The three lookups of \<^verbatim>\<open>startRecording\<close> all succeed.\<close>

definition resolves :: "env \<Rightarrow> dvr_job \<Rightarrow> bool" where
  "resolves e job =
     (List.find (\<lambda>c. ch_id c = channelId job) (env_channels e) \<noteq> None
      \<and> find_profile (recordingProfiles (dvr (env_settings e))) (profileId job) \<noteq> None
      \<and> find_user_agent (userAgents (env_settings e)) (userAgentId job) \<noteq> None)"

text \<open>
  What the state holds about job \<open>i\<close>: its row, its entry in \<^verbatim>\<open>activeDvrJobs\<close>, its tracked
  pid, and the library jobs armed for it, each with its handle.
\<close>

definition job_view :: "nat \<Rightarrow> dvr_state \<Rightarrow> dvr_job option \<times> nat option option \<times> nat option option \<times> (nat \<times> timer) list" where
  "job_view i st =
     (job_row i st, activeDvrJobs st i, runningFFmpegProcesses st i,
      filter (\<lambda>(h, t). timer_job t = i) (enumerate 0 (timers st)))"

section \<open>Live streams\<close>

subsection \<open>The table of active streams\<close>

text \<open>
  A JavaScript \<^verbatim>\<open>Map\<close> with string keys, as the list of its entries in insertion order:
  \<^verbatim>\<open>set\<close> replaces the value of a key that is present, where it stands, and appends a new
  key; \<^verbatim>\<open>delete\<close> removes the key.
\<close>

fun map_set :: "string \<Rightarrow> 'v \<Rightarrow> (string \<times> 'v) list \<Rightarrow> (string \<times> 'v) list" where
  "map_set k v [] = [(k, v)]"
| "map_set k v (e # es) = (if fst e = k then (k, v) # es else e # map_set k v es)"

definition map_delete :: "string \<Rightarrow> (string \<times> 'v) list \<Rightarrow> (string \<times> 'v) list" where
  "map_delete k es = filter (\<lambda>e. fst e \<noteq> k) es"

text \<open>
  An entry of \<^verbatim>\<open>activeStreamProcesses\<close>.  \<open>process\<close> is the handle of the ffmpeg child
  (processes are numbered as they are spawned); the fields that only feed the admin view
  (user name, channel name and logo, profile name, client address) are left out.
\<close>

record stream_info =
  process :: nat
  references :: int
  lastAccess :: int
  stream_startTime :: int
  historyId :: nat

datatype history_status = Playing | Stopped

text \<open>A row of \<^verbatim>\<open>stream_history\<close>.\<close>

record history_row =
  history_id :: nat
  start_time :: int
  end_time :: "int option"
  duration_seconds :: "int option"
  history_status :: history_status

record stream_state =
  activeStreamProcesses :: "(string \<times> stream_info) list"
  stream_history :: "history_row list"
  stream_history_seq :: nat
  spawned :: "string list list"
  killed :: "nat list"

text \<open>
  \<^verbatim>\<open>UPDATE stream_history SET end_time = ?, duration_seconds = ?, status = 'stopped'
  WHERE id = ? AND status = 'playing'\<close>, guarded by \<^verbatim>\<open>if (info.historyId)\<close>.
\<close>

definition finish_history :: "int \<Rightarrow> stream_info \<Rightarrow> history_row list \<Rightarrow> history_row list" where
  "finish_history now info rows =
     (if historyId info \<noteq> 0 then
        map (\<lambda>r. if history_id r = historyId info \<and> history_status r = Playing
                 then r\<lparr>end_time := Some now,
                        duration_seconds := Some ((now - stream_startTime info + 500) div 1000),
                        history_status := Stopped\<rparr>
                 else r) rows
      else rows)"

subsection \<open>Requesting a stream\<close>

text \<open>A query parameter that is missing is \<open>None\<close> and prints as \<^verbatim>\<open>undefined\<close>.\<close>

record stream_request =
  url :: "string option"
  req_profileId :: "string option"
  req_userAgentId :: "string option"

definition show_undefined :: "string option \<Rightarrow> string" where
  "show_undefined x = (case x of None \<Rightarrow> ''undefined'' | Some s \<Rightarrow> s)"

definition streamKey :: "nat \<Rightarrow> string option \<Rightarrow> string option \<Rightarrow> string" where
  "streamKey uid streamUrl pid =
     show_nat uid @ ''::'' @ show_undefined streamUrl @ ''::'' @ show_undefined pid"

text \<open>The \<^verbatim>\<open>commandTemplate\<close> of a live transcoding process, after substitution, and its argument vector.\<close>

definition stream_commandTemplate :: "settings \<Rightarrow> profile \<Rightarrow> string \<Rightarrow> string \<Rightarrow> string" where
  "stream_commandTemplate s prof streamUrl userAgentValue =
     ''-v level+'' @ playerLogLevel s @ '' '' @
       replace_all [''{userAgent}'', ''{clientUserAgent}''] userAgentValue
         (replace_all [''{streamUrl}''] streamUrl (command prof))"

definition stream_args :: "settings \<Rightarrow> profile \<Rightarrow> string \<Rightarrow> string \<Rightarrow> string list" where
  "stream_args s prof streamUrl userAgentValue =
     command_args (stream_commandTemplate s prof streamUrl userAgentValue)"

text \<open>
  What the callback of the history INSERT will need: the key, the process and the start
  time of the request that spawned the process.
\<close>

record pending_stream =
  pending_key :: string
  pending_process :: nat
  pending_startTime :: int

datatype stream_response =
    PipedExisting nat
  | PipedNew pending_stream
  | UrlRequired400
  | ProfileNotFound404
  | Redirect302 string
  | UserAgentNotFound404

text \<open>
  The handler of \<^verbatim>\<open>GET /stream\<close>, up to its return.  A request for a key that is in the
  table taps the process of that entry; any other request that passes the checks spawns a
  process and issues the history INSERT, whose callback (below) registers the stream.
\<close>

definition get_stream :: "settings \<Rightarrow> int \<Rightarrow> session \<Rightarrow> stream_request \<Rightarrow> stream_state \<Rightarrow> stream_response \<times> stream_state" where
  "get_stream s now sess req st =
     (let key = streamKey (userId sess) (url req) (req_profileId req)
      in case map_of (activeStreamProcesses st) key of
           Some activeStreamInfo \<Rightarrow>
             (PipedExisting (process activeStreamInfo),
              st\<lparr>activeStreamProcesses := map_set key
                    (activeStreamInfo\<lparr>references := references activeStreamInfo + 1, lastAccess := now\<rparr>)
                    (activeStreamProcesses st)\<rparr>)
         | None \<Rightarrow>
             (case url req of
                None \<Rightarrow> (UrlRequired400, st)
              | Some streamUrl \<Rightarrow>
                  if streamUrl = [] then (UrlRequired400, st)
                  else
                    (case (case find_profile (streamProfiles s) (req_profileId req) of
                             Some p \<Rightarrow> Some p
                           | None \<Rightarrow> find_profile (castProfiles s) (req_profileId req)) of
                       None \<Rightarrow> (ProfileNotFound404, st)
                     | Some prof \<Rightarrow>
                         if command prof = ''redirect'' then (Redirect302 streamUrl, st)
                         else
                           (case find_user_agent (userAgents s) (req_userAgentId req) of
                              None \<Rightarrow> (UserAgentNotFound404, st)
                            | Some userAgent \<Rightarrow>
                                (PipedNew \<lparr>pending_key = key, pending_process = length (spawned st),
                                           pending_startTime = now\<rparr>,
                                 st\<lparr>spawned := spawned st @
                                       [stream_args s prof streamUrl (ua_value userAgent)]\<rparr>)))))"

text \<open>
  The callback of the history INSERT, run at \<open>now\<close>; \<open>err\<close> says that the INSERT failed.
  Only here does the stream enter the table.
\<close>

definition on_history_inserted :: "int \<Rightarrow> pending_stream \<Rightarrow> bool \<Rightarrow> stream_state \<Rightarrow> stream_state" where
  "on_history_inserted now p err st =
     (if err then st
      else
        (let lastID = Suc (stream_history_seq st);
             newStreamInfo = \<lparr>process = pending_process p, references = 1, lastAccess = now,
                              stream_startTime = pending_startTime p, historyId = lastID\<rparr>
         in st\<lparr>stream_history := stream_history st @
                  [\<lparr>history_id = lastID, start_time = pending_startTime p, end_time = None,
                    duration_seconds = None, history_status = Playing\<rparr>],
               stream_history_seq := lastID,
               activeStreamProcesses := map_set (pending_key p) newStreamInfo (activeStreamProcesses st)\<rparr>))"

text \<open>
  The \<^verbatim>\<open>close\<close> handlers of the request.  The one of a tapping request counts down the
  entry it captured (\<open>proc\<close> is the process of that entry; once the entry has left the
  table nothing reads it any more).  The one of a spawning request looks the key up.
\<close>

definition on_close_existing :: "int \<Rightarrow> string \<Rightarrow> nat \<Rightarrow> stream_state \<Rightarrow> stream_state" where
  "on_close_existing now key proc st =
     (case map_of (activeStreamProcesses st) key of
        None \<Rightarrow> st
      | Some info \<Rightarrow>
          if process info = proc
          then st\<lparr>activeStreamProcesses := map_set key
                    (info\<lparr>references := references info - 1, lastAccess := now\<rparr>) (activeStreamProcesses st)\<rparr>
          else st)"

definition on_close_new :: "int \<Rightarrow> string \<Rightarrow> stream_state \<Rightarrow> stream_state" where
  "on_close_new now key st =
     (case map_of (activeStreamProcesses st) key of
        None \<Rightarrow> st
      | Some info \<Rightarrow>
          st\<lparr>activeStreamProcesses := map_set key
                (info\<lparr>references := references info - 1, lastAccess := now\<rparr>) (activeStreamProcesses st)\<rparr>)"

text \<open>\<^verbatim>\<open>cleanupOnExit\<close>, run when the process of a spawning request exits or fails.\<close>

definition cleanupOnExit :: "int \<Rightarrow> string \<Rightarrow> stream_state \<Rightarrow> stream_state" where
  "cleanupOnExit now key st =
     (let st1 = (case map_of (activeStreamProcesses st) key of
                   None \<Rightarrow> st
                 | Some info \<Rightarrow> st\<lparr>stream_history := finish_history now info (stream_history st)\<rparr>)
      in st1\<lparr>activeStreamProcesses := map_delete key (activeStreamProcesses st1)\<rparr>)"

subsection \<open>Stopping a stream\<close>

datatype stop_response = UrlRequired | KeptAlive | Terminated | NoActiveStream

text \<open>The key that \<^verbatim>\<open>POST /api/stream/stop\<close> looks up; an empty \<^verbatim>\<open>profileId\<close> counts as missing.\<close>

definition stop_key :: "nat \<Rightarrow> string \<Rightarrow> string option \<Rightarrow> (string \<times> stream_info) list \<Rightarrow> string" where
  "stop_key uid streamUrl pid table =
     (if pid \<noteq> None \<and> pid \<noteq> Some [] then show_nat uid @ ''::'' @ streamUrl @ ''::'' @ show_undefined pid
      else
        (let partialKey = show_nat uid @ ''::'' @ streamUrl
         in if map_of table partialKey \<noteq> None then partialKey
            else (case List.find (\<lambda>key. startsWith key (partialKey @ ''::'')) (map fst table) of
                    Some key \<Rightarrow> key
                  | None \<Rightarrow> partialKey)))"

text \<open>
  \<^verbatim>\<open>POST /api/stream/stop\<close>.  \<open>kill_throws\<close> says that \<^verbatim>\<open>process.kill('SIGKILL')\<close> throws;
  every answer but the first is \<^verbatim>\<open>success: true\<close>.
\<close>

definition post_stream_stop :: "bool \<Rightarrow> int \<Rightarrow> session \<Rightarrow> string option \<Rightarrow> string option \<Rightarrow> stream_state \<Rightarrow> stop_response \<times> stream_state" where
  "post_stream_stop kill_throws now sess streamUrl pid st =
     (case streamUrl of
        None \<Rightarrow> (UrlRequired, st)
      | Some u \<Rightarrow>
          if u = [] then (UrlRequired, st)
          else
            (let key = stop_key (userId sess) u pid (activeStreamProcesses st)
             in case map_of (activeStreamProcesses st) key of
                  None \<Rightarrow> (NoActiveStream, st)
                | Some activeStreamInfo \<Rightarrow>
                    if references activeStreamInfo > 1 then (KeptAlive, st)
                    else
                      (let st1 = st\<lparr>stream_history := finish_history now activeStreamInfo (stream_history st)\<rparr>
                       in if kill_throws then (Terminated, st1)
                          else (Terminated,
                                st1\<lparr>killed := killed st1 @ [process activeStreamInfo],
                                    activeStreamProcesses := map_delete key (activeStreamProcesses st1)\<rparr>))))"

subsection \<open>The janitor\<close>

definition STREAM_INACTIVITY_TIMEOUT :: int where
  "STREAM_INACTIVITY_TIMEOUT = 30000"

definition stale :: "int \<Rightarrow> stream_info \<Rightarrow> bool" where
  "stale now streamInfo =
     (references streamInfo \<le> 0 \<and> now - lastAccess streamInfo > STREAM_INACTIVITY_TIMEOUT)"

text \<open>
  \<^verbatim>\<open>cleanupInactiveStreams\<close>: the \<^verbatim>\<open>forEach\<close> over the entries.  \<open>kill_throws p\<close> says that
  killing process \<open>p\<close> throws; the handler of the exception removes the entry all the same.
\<close>

fun sweep :: "(nat \<Rightarrow> bool) \<Rightarrow> int \<Rightarrow> (string \<times> stream_info) list \<Rightarrow> stream_state \<Rightarrow> stream_state" where
  "sweep kill_throws now [] st = st"
| "sweep kill_throws now ((key, streamInfo) # es) st =
     sweep kill_throws now es
       (if stale now streamInfo then
          (let st1 = st\<lparr>stream_history := finish_history now streamInfo (stream_history st)\<rparr>
           in if kill_throws (process streamInfo)
              then st1\<lparr>activeStreamProcesses := map_delete key (activeStreamProcesses st1)\<rparr>
              else st1\<lparr>killed := killed st1 @ [process streamInfo],
                      activeStreamProcesses := map_delete key (activeStreamProcesses st1)\<rparr>)
        else st)"

definition cleanupInactiveStreams :: "(nat \<Rightarrow> bool) \<Rightarrow> int \<Rightarrow> stream_state \<Rightarrow> stream_state" where
  "cleanupInactiveStreams kill_throws now st = sweep kill_throws now (activeStreamProcesses st) st"

text \<open>\<^verbatim>\<open>setInterval(cleanupInactiveStreams, 60000)\<close>, started at \<open>start\<close>: the time of the n-th run.\<close>

definition janitor_run :: "int \<Rightarrow> nat \<Rightarrow> int" where
  "janitor_run start n = start + int n * 60000"

section \<open>Command templates, as the specification describes them\<close>














section \<open>Example configuration\<close>

text \<open>
  The default user agent, the first two default stream profiles and the default recording
  profile of \<^verbatim>\<open>getSettings\<close>, with the default buffers of one minute before and two
  minutes after a programme.
\<close>

definition scenario_settings :: settings where
  "scenario_settings =
     \<lparr>userAgents = [\<lparr>ua_id = ''default-ua-1724778434000'', ua_name = ''ViniPlay Default'',
                      ua_value = ''VLC/3.0.20 (Linux; x86_64)''\<rparr>],
      streamProfiles = [\<lparr>profile_id = ''redirect'', profile_name = ''Redirect (No Transcoding)'',
                          command = ''redirect''\<rparr>,
                        \<lparr>profile_id = ''ffmpeg-default'', profile_name = ''ffmpeg (Built in)'',
                          command = ''-user_agent '' @ CHR 0x22 # ''{userAgent}'' @ CHR 0x22 # '' -i ''
                            @ CHR 0x22 # ''{streamUrl}'' @ CHR 0x22
                            # '' -c:v libx264 -preset ultrafast -crf 23 -c:a aac -b:a 128k -f mpegts pipe:1''\<rparr>],
      castProfiles = [],
      dvr = \<lparr>preBufferMinutes = Some 1, postBufferMinutes = Some 2,
              maxConcurrentRecordings = Some 1,
              activeRecordingProfileId = Some ''dvr-ts-default'',
              recordingProfiles = [\<lparr>profile_id = ''dvr-ts-default'',
                 profile_name = ''Default TS (Stream Copy, Timeshiftable)'',
                 command = ''-user_agent '' @ CHR 0x22 # ''{userAgent}'' @ CHR 0x22 # '' -i ''
                   @ CHR 0x22 # ''{streamUrl}'' @ CHR 0x22 # '' -c copy -f mpegts ''
                   @ CHR 0x22 # ''{filePath}'' @ [CHR 0x22]\<rparr>]\<rparr>,
      activeUserAgentId = Some ''default-ua-1724778434000'',
      playerLogLevel = ''warning'',
      dvrLogLevel = ''warning''\<rparr>"

definition scenario_env :: env where
  "scenario_env =
     \<lparr>env_settings = scenario_settings,
      env_channels = [\<lparr>ch_id = ''ch1'', ch_url = ''http://example.com/live/1.ts'', ch_name = ''One''\<rparr>],
      spawn_pid = (\<lambda>n. Some (4000 + n))\<rparr>"

definition empty_dvr :: dvr_state where
  "empty_dvr =
     \<lparr>dvr_jobs = [], dvr_jobs_seq = 0, dvr_recordings = [], activeDvrJobs = Map.empty,
      runningFFmpegProcesses = Map.empty, timers = [], signals = [], rec_spawned = [],
      files = Map.empty\<rparr>"

text \<open>
  A programme from 2024-01-01T20:00:00Z (1704139200000 ms) to 2024-01-01T21:00:00Z
  (1704142800000 ms).
\<close>

definition scenario_request :: schedule_request where
  "scenario_request =
     \<lparr>req_channelId = ''ch1'', req_channelName = ''One'', req_programTitle = ''News'',
      programStart = Some 1704139200000, programStop = Some 1704142800000\<rparr>"

text \<open>
  A scheduled job of user 1 from 19:59:00Z to 21:02:00Z, a programme from 20:30 to 21:30
  that overlaps it, and a programme from 21:03 to 22:00 whose window starts at 21:02:00Z.
\<close>

definition job_A :: dvr_job where
  "job_A =
     \<lparr>job_id = 1, user_id = 1, channelId = ''ch1'', channelName = ''One'', programTitle = ''News'',
      startTime = Some 1704139140000, endTime = Some 1704142920000, status = Scheduled,
      ffmpeg_pid = None, filePath = None, profileId = Some ''dvr-ts-default'',
      userAgentId = Some ''default-ua-1724778434000'',
      job_preBufferMinutes = 1, job_postBufferMinutes = 2, errorMessage = None\<rparr>"

definition dvr_with_A :: dvr_state where
  "dvr_with_A = empty_dvr\<lparr>dvr_jobs := [job_A], dvr_jobs_seq := 1\<rparr>"



text \<open>The same job while it is being recorded, with an output file of exactly 1024 bytes.\<close>

definition recording_A :: dvr_state where
  "recording_A = empty_dvr\<lparr>dvr_jobs := [job_A\<lparr>status := Recording, ffmpeg_pid := Some 4000, filePath := Some ''/dvr/1_news.ts''\<rparr>],
       dvr_jobs_seq := 1,
       files := [''/dvr/1_news.ts'' \<mapsto> \<lparr>size = 1024, mode = 438\<rparr>]\<rparr>"

text \<open>
  The job table found at a restart at 20:30:00Z (1704141000000 ms): job 1 was being
  recorded, job 2 is over, job 3 is under way, and job 4 lies ahead.
\<close>

definition restart_state :: dvr_state where
  "restart_state = empty_dvr\<lparr>dvr_jobs :=
       [job_A\<lparr>status := Recording\<rparr>,
        job_A\<lparr>job_id := 2, startTime := Some 1704130000000, endTime := Some 1704133600000\<rparr>,
        job_A\<lparr>job_id := 3\<rparr>,
        job_A\<lparr>job_id := 4, startTime := Some 1704146340000, endTime := Some 1704150120000\<rparr>],
     dvr_jobs_seq := 4\<rparr>"

text \<open>The same job after it failed to start.\<close>

definition failed_A :: dvr_state where
  "failed_A = empty_dvr\<lparr>dvr_jobs := [job_A\<lparr>status := Error, errorMessage := Some ''User agent not found.''\<rparr>],
       dvr_jobs_seq := 1\<rparr>"

text \<open>
  User 1 asks twice for the same channel with the same profile.  The second request is
  handled before the history INSERT of the first has called back; then both callbacks run.
\<close>

definition empty_streams :: stream_state where
  "empty_streams = \<lparr>activeStreamProcesses = [], stream_history = [], stream_history_seq = 0,
                     spawned = [], killed = []\<rparr>"

definition viewer :: session where
  "viewer = \<lparr>userId = 1, isAdmin = False\<rparr>"

definition channel_request :: stream_request where
  "channel_request = \<lparr>url = Some ''http://example.com/live/1.ts'', req_profileId = Some ''ffmpeg-default'',
                       req_userAgentId = Some ''default-ua-1724778434000''\<rparr>"

definition channel_key :: string where
  "channel_key = ''1::http://example.com/live/1.ts::ffmpeg-default''"

definition first_attach :: "stream_response \<times> stream_state" where
  "first_attach = get_stream scenario_settings 1000 viewer channel_request empty_streams"

definition second_attach :: "stream_response \<times> stream_state" where
  "second_attach = get_stream scenario_settings 1001 viewer channel_request (snd first_attach)"

definition both_registered :: stream_state where
  "both_registered =
     on_history_inserted 1003 \<lparr>pending_key = channel_key, pending_process = 1, pending_startTime = 1001\<rparr> False
       (on_history_inserted 1002 \<lparr>pending_key = channel_key, pending_process = 0, pending_startTime = 1000\<rparr> False
          (snd second_attach))"

text \<open>
  Two streams of the same channel: the one of user 1 lost its last viewer at 1000 ms, the
  one of user 2 is being watched.
\<close>

definition idle_and_watched :: stream_state where
  "idle_and_watched =
     \<lparr>activeStreamProcesses =
        [(''1::http://example.com/live/1.ts::ffmpeg-default'',
          \<lparr>process = 0, references = 0, lastAccess = 1000, stream_startTime = 500, historyId = 1\<rparr>),
         (''2::http://example.com/live/1.ts::ffmpeg-default'',
          \<lparr>process = 1, references = 1, lastAccess = 900, stream_startTime = 900, historyId = 2\<rparr>)],
      stream_history =
        [\<lparr>history_id = 1, start_time = 500, end_time = None, duration_seconds = None, history_status = Playing\<rparr>,
         \<lparr>history_id = 2, start_time = 900, end_time = None, duration_seconds = None, history_status = Playing\<rparr>],
      stream_history_seq = 2, spawned = [[], []], killed = []\<rparr>"

text \<open>The stream of user 1 with two viewers attached.\<close>

definition two_viewers :: stream_state where
  "two_viewers =
     \<lparr>activeStreamProcesses =
        [(channel_key,
          \<lparr>process = 0, references = 2, lastAccess = 2000, stream_startTime = 1000, historyId = 1\<rparr>)],
      stream_history =
        [\<lparr>history_id = 1, start_time = 1000, end_time = None, duration_seconds = None, history_status = Playing\<rparr>],
      stream_history_seq = 1, spawned = [[]], killed = []\<rparr>"





section \<open>Properties of the DVR engine\<close>

subsection \<open>What arming a job leaves alone\<close>

lemma job_window_values:
  "job_window s req = (Some ns, Some ne) \<Longrightarrow>
     \<exists>ps pe. programStart req = Some ps \<and> programStop req = Some pe
       \<and> ns = ps - (case preBufferMinutes (dvr s) of None \<Rightarrow> 0 | Some m \<Rightarrow> m) * 60000
       \<and> ne = pe + (case postBufferMinutes (dvr s) of None \<Rightarrow> 0 | Some m \<Rightarrow> m) * 60000"
  by (auto simp: job_window_def new_Date_def buffer_ms_def Let_def split: option.splits if_splits)

lemma update_job_window:
  "(\<And>r. window_of (f r) = window_of r) \<Longrightarrow>
     map window_of (dvr_jobs (update_job i f st)) = map window_of (dvr_jobs st)"
  by (simp add: update_job_def)

lemma cancel_jobs [simp]: "dvr_jobs (cancel h st) = dvr_jobs st"
  by (simp add: cancel_def)

lemma forget_start_job_jobs [simp]: "dvr_jobs (forget_start_job i st) = dvr_jobs st"
  by (simp add: forget_start_job_def split: option.splits)

lemma scheduleJob_jobs [simp]: "dvr_jobs (snd (scheduleJob now d a st)) = dvr_jobs st"
  by (simp add: scheduleJob_def split: option.splits)

lemma set_error_window:
  "map window_of (dvr_jobs (set_error msg i st)) = map window_of (dvr_jobs st)"
  unfolding set_error_def by (rule update_job_window) (simp add: window_of_def)

lemma startRecording_window:
  "map window_of (dvr_jobs (startRecording e job st)) = map window_of (dvr_jobs st)"
  unfolding startRecording_def Let_def
  by (simp add: set_error_window update_job_def window_of_def split: option.splits)

lemma scheduleDvrJob_window:
  "map window_of (dvr_jobs (scheduleDvrJob e now job st)) = map window_of (dvr_jobs st)"
  unfolding scheduleDvrJob_def Let_def
  by (simp add: startRecording_window update_job_def window_of_def)

subsection \<open>Rows, pids and armed jobs of other recordings\<close>

lemma startRecording_resolved:
  assumes "resolves e job"
  shows "\<exists>pid path args. startRecording e job st =
       update_job (job_id job) (\<lambda>r. r\<lparr>status := Recording, ffmpeg_pid := pid, filePath := Some path\<rparr>)
         (st\<lparr>rec_spawned := rec_spawned st @ [args],
             runningFFmpegProcesses := (runningFFmpegProcesses st)(job_id job \<mapsto> pid)\<rparr>)"
proof -
  from assms obtain ch rp ua where
    "List.find (\<lambda>c. ch_id c = channelId job) (env_channels e) = Some ch"
    "find_profile (recordingProfiles (dvr (env_settings e))) (profileId job) = Some rp"
    "find_user_agent (userAgents (env_settings e)) (userAgentId job) = Some ua"
    by (auto simp: resolves_def)
  then show ?thesis
    by (simp add: startRecording_def Let_def) blast
qed

lemma startRecording_unresolved:
  assumes "\<not> resolves e job"
  shows "\<exists>msg. startRecording e job st = set_error msg (job_id job) st"
proof (cases "List.find (\<lambda>c. ch_id c = channelId job) (env_channels e)")
  case None
  then show ?thesis by (simp add: startRecording_def) blast
next
  case ch: (Some c)
  show ?thesis
  proof (cases "find_profile (recordingProfiles (dvr (env_settings e))) (profileId job)")
    case None
    with ch show ?thesis by (simp add: startRecording_def) blast
  next
    case rp: (Some p)
    with ch assms have "find_user_agent (userAgents (env_settings e)) (userAgentId job) = None"
      by (simp add: resolves_def)
    with ch rp show ?thesis by (simp add: startRecording_def) blast
  qed
qed

lemma find_map_same_id:
  "(\<And>r. job_id (g r) = job_id r) \<Longrightarrow>
     List.find (\<lambda>r. job_id r = i) (map g rs) = map_option g (List.find (\<lambda>r. job_id r = i) rs)"
  by (induction rs) auto

lemma job_row_update_job:
  assumes "\<And>r. job_id (f r) = job_id r"
  shows "job_row i (update_job k f st) = (if i = k then map_option f (job_row i st) else job_row i st)"
proof -
  have g: "\<And>r. job_id (if job_id r = k then f r else r) = job_id r" using assms by simp
  have "job_row i (update_job k f st)
          = map_option (\<lambda>r. if job_id r = k then f r else r) (job_row i st)"
    unfolding job_row_def update_job_def using find_map_same_id [of "\<lambda>r. if job_id r = k then f r else r", OF g]
    by simp
  also have "\<dots> = (if i = k then map_option f (job_row i st) else job_row i st)"
  proof (cases "job_row i st")
    case None then show ?thesis by auto
  next
    case (Some r)
    then have "job_id r = i" unfolding job_row_def by (auto dest: find_Some_iff [THEN iffD1])
    with Some show ?thesis by auto
  qed
  finally show ?thesis .
qed

lemma job_row_set_error:
  "job_row i (set_error msg k st) =
     (if i = k then map_option (\<lambda>r. r\<lparr>status := Error, ffmpeg_pid := None, errorMessage := Some msg\<rparr>) (job_row i st)
      else job_row i st)"
  unfolding set_error_def by (rule job_row_update_job) simp

lemma update_job_fields [simp]:
  "activeDvrJobs (update_job k f st) = activeDvrJobs st"
  "runningFFmpegProcesses (update_job k f st) = runningFFmpegProcesses st"
  "timers (update_job k f st) = timers st"
  by (simp_all add: update_job_def)

lemma set_error_fields [simp]:
  "activeDvrJobs (set_error m k st) = activeDvrJobs st"
  "runningFFmpegProcesses (set_error m k st) = runningFFmpegProcesses st"
  "timers (set_error m k st) = timers st"
  by (simp_all add: set_error_def)

lemma job_row_cong: "dvr_jobs a = dvr_jobs b \<Longrightarrow> job_row i a = job_row i b"
  by (simp add: job_row_def)

lemma startRecording_fields [simp]:
  "activeDvrJobs (startRecording e j st) = activeDvrJobs st"
  "timers (startRecording e j st) = timers st"
proof -
  show "activeDvrJobs (startRecording e j st) = activeDvrJobs st"
  proof (cases "resolves e j")
    case True
    from startRecording_resolved [OF True, of st] show ?thesis by auto
  next
    case False
    from startRecording_unresolved [OF False, of st] show ?thesis by auto
  qed
  show "timers (startRecording e j st) = timers st"
  proof (cases "resolves e j")
    case True
    from startRecording_resolved [OF True, of st] show ?thesis by auto
  next
    case False
    from startRecording_unresolved [OF False, of st] show ?thesis by auto
  qed
qed

lemma startRecording_other:
  assumes "i \<noteq> job_id j"
  shows "job_row i (startRecording e j st) = job_row i st"
    and "runningFFmpegProcesses (startRecording e j st) i = runningFFmpegProcesses st i"
proof -
  show "job_row i (startRecording e j st) = job_row i st"
  proof (cases "resolves e j")
    case True
    from startRecording_resolved [OF True, of st] obtain pid path args where
      "startRecording e j st =
       update_job (job_id j) (\<lambda>r. r\<lparr>status := Recording, ffmpeg_pid := pid, filePath := Some path\<rparr>)
         (st\<lparr>rec_spawned := rec_spawned st @ [args],
             runningFFmpegProcesses := (runningFFmpegProcesses st)(job_id j \<mapsto> pid)\<rparr>)" by blast
    with assms show ?thesis by (simp add: job_row_update_job) (simp add: job_row_def)
  next
    case False
    from startRecording_unresolved [OF False, of st] assms show ?thesis by (auto simp: job_row_set_error)
  qed
  show "runningFFmpegProcesses (startRecording e j st) i = runningFFmpegProcesses st i"
  proof (cases "resolves e j")
    case True
    from startRecording_resolved [OF True, of st] assms show ?thesis by auto
  next
    case False
    from startRecording_unresolved [OF False, of st] show ?thesis by auto
  qed
qed

lemma forget_start_job_none: "activeDvrJobs st i = None \<Longrightarrow> forget_start_job i st = st"
  by (simp add: forget_start_job_def)

lemma scheduleJob_armed:
  "now \<le> t \<Longrightarrow> scheduleJob now (Some t) a st
     = (Some (length (timers st)), st\<lparr>timers := timers st @ [\<lparr>fire_at = t, action = a, timer_status = Pending\<rparr>]\<rparr>)"
  by (simp add: scheduleJob_def)

lemma scheduleJob_frame:
  "\<exists>new. snd (scheduleJob now d a st) = st\<lparr>timers := timers st @ new\<rparr>
      \<and> (\<forall>t \<in> set new. action t = a)"
  by (cases d) (auto simp: scheduleJob_def intro: exI [of _ "[]"])

lemma timers_view_append:
  assumes "\<forall>t \<in> set new. timer_job t \<noteq> i"
  shows "filter (\<lambda>(h, t). timer_job t = i) (enumerate 0 (ts @ new))
       = filter (\<lambda>(h, t). timer_job t = i) (enumerate 0 ts)"
proof -
  have "t \<in> set new" if "(h, t) \<in> set (enumerate n new)" for n h t
    using that by (auto simp: enumerate_eq_zip dest: in_set_zipE)
  then have "filter (\<lambda>(h, t). timer_job t = i) (enumerate n new) = []" for n
    using assms by (fastforce simp: filter_empty_conv)
  then show ?thesis by (simp add: enumerate_append_eq)
qed

text \<open>Arming job \<open>j\<close>, when no start job is registered for it, leaves every other job's view alone.\<close>

lemma scheduleDvrJob_other:
  assumes none: "activeDvrJobs st (job_id j) = None" and i: "i \<noteq> job_id j"
  shows "job_view i (scheduleDvrJob e now j st) = job_view i st"
proof -
  let ?upd = "update_job (job_id j)
                (\<lambda>r. r\<lparr>status := Error, errorMessage := Some ''Job was scheduled for a time in the past.''\<rparr>) st"
  have past: "job_view i ?upd = job_view i st"
    using i by (simp add: job_view_def job_row_update_job)
  obtain new1 where n1: "snd (scheduleJob now (startTime j) (StartRecordingOf j) st) = st\<lparr>timers := timers st @ new1\<rparr>"
    and a1: "\<forall>t \<in> set new1. action t = StartRecordingOf j"
    using scheduleJob_frame by blast
  let ?s1 = "(snd (scheduleJob now (startTime j) (StartRecordingOf j) st))
               \<lparr>activeDvrJobs := (activeDvrJobs (snd (scheduleJob now (startTime j) (StartRecordingOf j) st)))
                    (job_id j \<mapsto> fst (scheduleJob now (startTime j) (StartRecordingOf j) st))\<rparr>"
  from a1 i have t1: "\<forall>t \<in> set new1. timer_job t \<noteq> i" by (simp add: timer_job_def)
  have v1: "job_view i ?s1 = job_view i st"
    using i t1 unfolding n1 by (simp add: job_view_def job_row_def timers_view_append)
  have v2: "job_view i (startRecording e j st) = job_view i st"
    using i by (simp add: job_view_def startRecording_other)
  have stop: "job_view i (snd (scheduleJob now (endTime j) (StopRecordingOf (job_id j)) s)) = job_view i s" for s
  proof -
    obtain new2 where n2: "snd (scheduleJob now (endTime j) (StopRecordingOf (job_id j)) s) = s\<lparr>timers := timers s @ new2\<rparr>"
      and a2: "\<forall>t \<in> set new2. action t = StopRecordingOf (job_id j)"
      using scheduleJob_frame by blast
    from a2 i have "\<forall>t \<in> set new2. timer_job t \<noteq> i" by (simp add: timer_job_def)
    then show ?thesis unfolding n2
      by (simp add: job_view_def job_row_def timers_view_append)
  qed
  show ?thesis
    unfolding scheduleDvrJob_def Let_def forget_start_job_none [OF none]
    using past v1 v2 stop by auto
qed

text \<open>Arming a list of jobs with distinct ids: each job is armed in a state that holds for it what the first state held.\<close>

lemma fold_schedule_views:
  assumes "distinct (map job_id js)"
      and "\<forall>k \<in> set js. activeDvrJobs st (job_id k) = None"
  shows "(\<forall>i. i \<notin> job_id ` set js \<longrightarrow>
            job_view i (fold (\<lambda>job. scheduleDvrJob e (clock (job_id job)) job) js st) = job_view i st)
       \<and> (\<forall>k \<in> set js. \<exists>s. job_view (job_id k) s = job_view (job_id k) st
            \<and> job_view (job_id k) (fold (\<lambda>job. scheduleDvrJob e (clock (job_id job)) job) js st)
                = job_view (job_id k) (scheduleDvrJob e (clock (job_id k)) k s))"
  using assms
proof (induction js arbitrary: st)
  case Nil
  then show ?case by simp
next
  case (Cons j js)
  let ?step = "\<lambda>job. scheduleDvrJob e (clock (job_id job)) job"
  let ?s1 = "?step j st"
  from Cons.prems have none_j: "activeDvrJobs st (job_id j) = None" by simp
  have frame: "job_view i ?s1 = job_view i st" if "i \<noteq> job_id j" for i
    using scheduleDvrJob_other [OF none_j that] .
  from Cons.prems have dist: "distinct (map job_id js)" and notin: "job_id j \<notin> job_id ` set js" by auto
  have pre: "\<forall>k \<in> set js. activeDvrJobs ?s1 (job_id k) = None"
  proof
    fix k assume k: "k \<in> set js"
    with notin have ne: "job_id k \<noteq> job_id j" by (metis imageI)
    from frame [OF ne] have "activeDvrJobs ?s1 (job_id k) = activeDvrJobs st (job_id k)"
      by (simp add: job_view_def)
    with Cons.prems k show "activeDvrJobs ?s1 (job_id k) = None" by simp
  qed
  note IH = Cons.IH [OF dist pre]
  have a: "\<forall>i. i \<notin> job_id ` set (j # js) \<longrightarrow> job_view i (fold ?step (j # js) st) = job_view i st"
  proof (intro allI impI)
    fix i assume "i \<notin> job_id ` set (j # js)"
    then have "i \<noteq> job_id j" "i \<notin> job_id ` set js" by auto
    with IH frame show "job_view i (fold ?step (j # js) st) = job_view i st" by simp
  qed
  have b: "\<forall>k \<in> set (j # js). \<exists>s. job_view (job_id k) s = job_view (job_id k) st
            \<and> job_view (job_id k) (fold ?step (j # js) st) = job_view (job_id k) (?step k s)"
  proof
    fix k assume "k \<in> set (j # js)"
    then consider "k = j" | "k \<in> set js" by auto
    then show "\<exists>s. job_view (job_id k) s = job_view (job_id k) st
            \<and> job_view (job_id k) (fold ?step (j # js) st) = job_view (job_id k) (?step k s)"
    proof cases
      case 1
      with IH notin have "job_view (job_id k) (fold ?step (j # js) st) = job_view (job_id k) (?step k st)"
        by simp
      then show ?thesis by blast
    next
      case 2
      with notin have ne: "job_id k \<noteq> job_id j" by (metis imageI)
      from IH 2 obtain s where "job_view (job_id k) s = job_view (job_id k) ?s1"
        and "job_view (job_id k) (fold ?step js ?s1) = job_view (job_id k) (?step k s)" by blast
      with frame [OF ne] show ?thesis by auto
    qed
  qed
  from a b show ?case by blast
qed

text \<open>What arming does to the view of the job armed, by the position of its window.\<close>

lemma view_past:
  assumes v: "job_view (job_id k) s = (Some k, None, None, [])"
      and "status k = Scheduled" "endTime k = Some en" "en \<le> now"
  shows "job_view (job_id k) (scheduleDvrJob e now k s)
           = (Some (k\<lparr>status := Error, errorMessage := Some ''Job was scheduled for a time in the past.''\<rparr>),
              None, None, [])"
proof -
  from v have none: "activeDvrJobs s (job_id k) = None" by (simp add: job_view_def)
  from assms(2-4) have "scheduleDvrJob e now k s = update_job (job_id k)
      (\<lambda>r. r\<lparr>status := Error, errorMessage := Some ''Job was scheduled for a time in the past.''\<rparr>) s"
    unfolding scheduleDvrJob_def Let_def forget_start_job_none [OF none] by (simp add: js_le_def)
  with v show ?thesis by (simp add: job_view_def job_row_update_job)
qed

lemma view_future:
  assumes v: "job_view (job_id k) s = (Some k, None, None, [])"
      and "startTime k = Some sv" "endTime k = Some en" "now < sv" "now < en"
  shows "\<exists>h. job_view (job_id k) (scheduleDvrJob e now k s)
           = (Some k, Some (Some h), None,
              [(h, \<lparr>fire_at = sv, action = StartRecordingOf k, timer_status = Pending\<rparr>),
               (Suc h, \<lparr>fire_at = en, action = StopRecordingOf (job_id k), timer_status = Pending\<rparr>)])"
proof -
  from v have none: "activeDvrJobs s (job_id k) = None" by (simp add: job_view_def)
  from assms(2-5) have "scheduleDvrJob e now k s =
      s\<lparr>timers := timers s @ [\<lparr>fire_at = sv, action = StartRecordingOf k, timer_status = Pending\<rparr>,
                              \<lparr>fire_at = en, action = StopRecordingOf (job_id k), timer_status = Pending\<rparr>],
        activeDvrJobs := (activeDvrJobs s)(job_id k \<mapsto> Some (length (timers s)))\<rparr>"
    unfolding scheduleDvrJob_def Let_def forget_start_job_none [OF none]
    by (simp add: js_le_def js_gt_def js_lt_def scheduleJob_armed)
  with v have "job_view (job_id k) (scheduleDvrJob e now k s)
           = (Some k, Some (Some (length (timers s))), None,
              [(length (timers s), \<lparr>fire_at = sv, action = StartRecordingOf k, timer_status = Pending\<rparr>),
               (Suc (length (timers s)), \<lparr>fire_at = en, action = StopRecordingOf (job_id k), timer_status = Pending\<rparr>)])"
    by (simp add: job_view_def job_row_def enumerate_append_eq timer_job_def)
  then show ?thesis by blast
qed

lemma view_now:
  assumes v: "job_view (job_id k) s = (Some k, None, None, [])"
      and "startTime k = Some sv" "endTime k = Some en" "sv \<le> now" "now < en"
  shows "\<exists>h row pid. job_view (job_id k) (scheduleDvrJob e now k s)
           = (Some row, None, pid,
              [(h, \<lparr>fire_at = en, action = StopRecordingOf (job_id k), timer_status = Pending\<rparr>)])
         \<and> status row = (if resolves e k then Recording else Error)
         \<and> (resolves e k \<longrightarrow> pid \<noteq> None)"
proof -
  from v have none: "activeDvrJobs s (job_id k) = None" by (simp add: job_view_def)
  let ?s1 = "startRecording e k s"
  from assms(2-5) have eq: "scheduleDvrJob e now k s =
      ?s1\<lparr>timers := timers s @ [\<lparr>fire_at = en, action = StopRecordingOf (job_id k), timer_status = Pending\<rparr>]\<rparr>"
    unfolding scheduleDvrJob_def Let_def forget_start_job_none [OF none]
    by (simp add: js_le_def js_gt_def js_lt_def scheduleJob_armed)
  have tv: "filter (\<lambda>(h, t). timer_job t = job_id k) (enumerate 0 (timers s @
              [\<lparr>fire_at = en, action = StopRecordingOf (job_id k), timer_status = Pending\<rparr>]))
          = [(length (timers s), \<lparr>fire_at = en, action = StopRecordingOf (job_id k), timer_status = Pending\<rparr>)]"
    using v by (simp add: job_view_def enumerate_append_eq timer_job_def)
  show ?thesis
  proof (cases "resolves e k")
    case True
    from startRecording_resolved [OF True, of s] obtain pid path args where
      sr: "?s1 = update_job (job_id k) (\<lambda>r. r\<lparr>status := Recording, ffmpeg_pid := pid, filePath := Some path\<rparr>)
         (s\<lparr>rec_spawned := rec_spawned s @ [args],
             runningFFmpegProcesses := (runningFFmpegProcesses s)(job_id k \<mapsto> pid)\<rparr>)" by blast
    have row: "job_row (job_id k) ?s1 = Some (k\<lparr>status := Recording, ffmpeg_pid := pid, filePath := Some path\<rparr>)"
      unfolding sr using v by (simp add: job_row_update_job) (simp add: job_view_def job_row_def)
    have run: "runningFFmpegProcesses ?s1 (job_id k) = Some pid" unfolding sr by simp
    have "job_view (job_id k) (scheduleDvrJob e now k s)
           = (Some (k\<lparr>status := Recording, ffmpeg_pid := pid, filePath := Some path\<rparr>), None, Some pid,
              [(length (timers s), \<lparr>fire_at = en, action = StopRecordingOf (job_id k), timer_status = Pending\<rparr>)])"
      unfolding eq using row run tv none by (simp add: job_view_def job_row_def)
    with True show ?thesis by simp
  next
    case False
    from startRecording_unresolved [OF False, of s] obtain msg where
      sr: "?s1 = set_error msg (job_id k) s" by blast
    have row: "job_row (job_id k) ?s1 = Some (k\<lparr>status := Error, ffmpeg_pid := None, errorMessage := Some msg\<rparr>)"
      unfolding sr using v by (simp add: job_row_set_error job_view_def)
    have "job_view (job_id k) (scheduleDvrJob e now k s)
           = (Some (k\<lparr>status := Error, ffmpeg_pid := None, errorMessage := Some msg\<rparr>), None, None,
              [(length (timers s), \<lparr>fire_at = en, action = StopRecordingOf (job_id k), timer_status = Pending\<rparr>)])"
      unfolding eq using row tv none v by (simp add: job_view_def job_row_def sr)
    with False show ?thesis by simp
  qed
qed

lemma view_timer_at:
  assumes "(h, t) \<in> set (snd (snd (snd (job_view i st))))"
  shows "h < length (timers st) \<and> timers st ! h = t"
  using assms by (auto simp: job_view_def in_set_enumerate_eq)

lemma view_timers_all:
  assumes "t \<in> set (timers st)" "timer_job t = i"
  shows "\<exists>h. (h, t) \<in> set (snd (snd (snd (job_view i st))))"
proof -
  from assms(1) obtain h where "h < length (timers st)" "timers st ! h = t" by (auto simp: in_set_conv_nth)
  with assms(2) have "(h, t) \<in> set (snd (snd (snd (job_view i st))))"
    by (auto simp: job_view_def in_set_enumerate_eq)
  then show ?thesis ..
qed

lemma find_distinct_id:
  "distinct (map job_id rs) \<Longrightarrow> r \<in> set rs \<Longrightarrow> List.find (\<lambda>x. job_id x = job_id r) rs = Some r"
  by (induction rs) (auto simp: image_iff)

subsection \<open>Armed jobs that cancelling and rescheduling leave alone\<close>

lemma cancel_timers:
  "length (timers (cancel t st)) = length (timers st)"
  "h \<noteq> t \<Longrightarrow> timers (cancel t st) ! h = timers st ! h"
  by (simp_all add: cancel_def)

lemma forget_start_job_timers:
  "length (timers (forget_start_job i st)) = length (timers st)"
  "activeDvrJobs st i \<noteq> Some (Some h) \<Longrightarrow> timers (forget_start_job i st) ! h = timers st ! h"
  by (auto simp: forget_start_job_def cancel_timers split: option.splits)

lemma forget_start_job_map [simp]:
  "activeDvrJobs (forget_start_job i st) = (activeDvrJobs st)(i := None)"
  by (auto simp: forget_start_job_def cancel_def split: option.splits)

lemma scheduleJob_timers_prefix:
  "h < length (timers st) \<Longrightarrow> timers (snd (scheduleJob now d a st)) ! h = timers st ! h"
  by (cases d) (simp_all add: scheduleJob_def nth_append)

lemma scheduleDvrJob_keeps:
  assumes "h < length (timers st)" "activeDvrJobs st (job_id j) \<noteq> Some (Some h)"
  shows "timers (scheduleDvrJob e now j st) ! h = timers st ! h"
proof -
  let ?s = "forget_start_job (job_id j) st"
  have l: "h < length (timers ?s)" and k: "timers ?s ! h = timers st ! h"
    using assms by (simp_all add: forget_start_job_timers)
  let ?st = "scheduleJob now (startTime j) (StartRecordingOf j) ?s"
  have a: "timers ((snd ?st)\<lparr>activeDvrJobs := (activeDvrJobs (snd ?st))(job_id j \<mapsto> fst ?st)\<rparr>) ! h = timers st ! h"
    using l k by (simp add: scheduleJob_timers_prefix)
  have al: "h < length (timers ((snd ?st)\<lparr>activeDvrJobs := (activeDvrJobs (snd ?st))(job_id j \<mapsto> fst ?st)\<rparr>))"
    using l by (cases "startTime j") (simp_all add: scheduleJob_def)
  have b: "timers (startRecording e j ?s) ! h = timers st ! h" using k by simp
  have bl: "h < length (timers (startRecording e j ?s))" using l by simp
  show ?thesis
    unfolding scheduleDvrJob_def Let_def
    using l k a al b bl by (simp add: scheduleJob_timers_prefix)
qed

lemma set_status_where_timers [simp]: "timers (snd (set_status_where sess i s st)) = timers st"
  by (simp add: set_status_where_def)

lemma delete_job_keeps:
  assumes "activeDvrJobs st i \<noteq> Some (Some h)"
  shows "timers (snd (delete_job sess i st)) ! h = timers st ! h"
  using assms by (simp add: delete_job_def forget_start_job_timers)

lemma put_job_keeps:
  assumes "h < length (timers st)" "activeDvrJobs st i \<noteq> Some (Some h)"
  shows "timers (snd (put_job e now sess i ns ne st)) ! h = timers st ! h"
proof (cases "\<exists>a b job. ns = Some a \<and> ne = Some b \<and> List.find (authorized sess i) (dvr_jobs st) = Some job \<and> status job = Scheduled")
  case True
  then obtain a b job where x: "ns = Some a" "ne = Some b"
    "List.find (authorized sess i) (dvr_jobs st) = Some job" "status job = Scheduled" by blast
  from x(3) have "job_id job = i" by (auto simp: find_Some_iff authorized_def)
  with x assms show ?thesis
    by (simp add: put_job_def Let_def scheduleDvrJob_keeps)
next
  case False
  then show ?thesis
    by (auto simp: put_job_def split: option.splits prod.splits)
qed

lemma scheduleDvrJob_future:
  assumes "startTime job = Some sv" "endTime job = Some en" "now < sv" "now < en"
  shows "scheduleDvrJob e now job st =
     (forget_start_job (job_id job) st)
       \<lparr>timers := timers (forget_start_job (job_id job) st) @
           [\<lparr>fire_at = sv, action = StartRecordingOf job, timer_status = Pending\<rparr>,
            \<lparr>fire_at = en, action = StopRecordingOf (job_id job), timer_status = Pending\<rparr>],
        activeDvrJobs := (activeDvrJobs st)(job_id job \<mapsto> Some (length (timers st)))\<rparr>"
  using assms unfolding scheduleDvrJob_def Let_def
  by (simp add: js_le_def js_gt_def js_lt_def scheduleJob_armed forget_start_job_timers)

subsection \<open>The recording window\<close>

text \<open>
  Claim C8.  Whenever \<^verbatim>\<open>POST /api/dvr/schedule\<close> creates a job, the job returned and the
  row persisted for it have \<open>startTime = programStart - preBufferMinutes\<close> and
  \<open>endTime = programStop + postBufferMinutes\<close> (a minute is 60000 ms; a buffer that is not
  configured counts as 0).
\<close>

theorem schedule_window_expanded:
  assumes "post_schedule e now sess req st = (Created201 job, st')"
  shows "\<exists>ps pe. programStart req = Some ps \<and> programStop req = Some pe
           \<and> startTime job = Some (ps - (case preBufferMinutes (dvr (env_settings e)) of None \<Rightarrow> 0 | Some m \<Rightarrow> m) * 60000)
           \<and> endTime job = Some (pe + (case postBufferMinutes (dvr (env_settings e)) of None \<Rightarrow> 0 | Some m \<Rightarrow> m) * 60000)
           \<and> (\<exists>r \<in> set (dvr_jobs st'). job_id r = job_id job \<and> startTime r = startTime job \<and> endTime r = endTime job)"
proof -
  obtain start stop where w: "job_window (env_settings e) req = (start, stop)"
    by (cases "job_window (env_settings e) req")
  from assms w obtain ns ne where v: "start = Some ns" "stop = Some ne"
    by (cases start; cases stop) (auto simp: post_schedule_def Let_def)
  from assms w v have
    nj: "startTime job = Some ns \<and> endTime job = Some ne"
    and st': "st' = scheduleDvrJob e now job (st\<lparr>dvr_jobs := dvr_jobs st @ [job], dvr_jobs_seq := Suc (dvr_jobs_seq st)\<rparr>)"
    by (auto simp: post_schedule_def Let_def insert_job_def split: if_splits)
  have "window_of job \<in> set (map window_of (dvr_jobs st'))"
    unfolding st' scheduleDvrJob_window by simp
  then have persisted: "\<exists>r \<in> set (dvr_jobs st'). job_id r = job_id job \<and> startTime r = startTime job \<and> endTime r = endTime job"
    by (auto simp: window_of_def)
  from job_window_values [OF w [unfolded v]] nj persisted show ?thesis by auto
qed

text \<open>
  The scenario of the specification: with buffers of 1 and 2 minutes the programme
  20:00:00Z to 21:00:00Z is recorded from 19:59:00Z (1704139140000 ms) to 21:02:00Z
  (1704142920000 ms), stored as the texts \<^verbatim>\<open>2024-01-01T19:59:00.000Z\<close> and
  \<^verbatim>\<open>2024-01-01T21:02:00.000Z\<close>.
\<close>

theorem schedule_window_scenario:
  "\<exists>job st'. post_schedule scenario_env 1704100000000 \<lparr>userId = 1, isAdmin = False\<rparr> scenario_request empty_dvr
       = (Created201 job, st')
     \<and> startTime job = Some 1704139140000 \<and> endTime job = Some 1704142920000
     \<and> map_option toISOString (startTime job) = Some ''2024-01-01T19:59:00.000Z''
     \<and> map_option toISOString (endTime job) = Some ''2024-01-01T21:02:00.000Z''
     \<and> (\<exists>r \<in> set (dvr_jobs st'). job_id r = job_id job \<and> startTime r = Some 1704139140000 \<and> endTime r = Some 1704142920000)"
proof -
  obtain resp st' where p: "post_schedule scenario_env 1704100000000 \<lparr>userId = 1, isAdmin = False\<rparr> scenario_request empty_dvr = (resp, st')"
    by (cases "post_schedule scenario_env 1704100000000 \<lparr>userId = 1, isAdmin = False\<rparr> scenario_request empty_dvr")
  have "\<exists>job. resp = Created201 job"
    using p by (auto simp: post_schedule_def job_window_def new_Date_def buffer_ms_def
      scenario_env_def scenario_settings_def scenario_request_def empty_dvr_def
      checkForConflicts_def maxConcurrent_def insert_job_def Let_def)
  then obtain job where r: "resp = Created201 job" ..
  have c: "civil_from_days (1704139140000 div 86400000) = (2024, 1, 1)"
    "civil_from_days (1704142920000 div 86400000) = (2024, 1, 1)"
    by code_simp+
  have iso: "toISOString 1704139140000 = ''2024-01-01T19:59:00.000Z''"
    "toISOString 1704142920000 = ''2024-01-01T21:02:00.000Z''"
    unfolding toISOString_def c by (simp_all add: pad2_def pad3_def pad4_def digit_char_def)
  from schedule_window_expanded [OF p [unfolded r]] p r
  have w: "startTime job = Some 1704139140000 \<and> endTime job = Some 1704142920000
     \<and> (\<exists>r \<in> set (dvr_jobs st'). job_id r = job_id job \<and> startTime r = Some 1704139140000 \<and> endTime r = Some 1704142920000)"
    by (auto simp: scenario_env_def scenario_settings_def scenario_request_def)
  from w p r iso show ?thesis by simp
qed

subsection \<open>Conflicts at schedule time\<close>



subsection \<open>Classifying the exit of a recording\<close>

text \<open>
  Claim C3.  The exit is graceful iff the exit code is 0 or 255 or the collected stderr
  contains \<^verbatim>\<open>Exiting normally, received signal 2\<close>.  When it is graceful and the output
  file exists with more than 1024 bytes, the job becomes \<open>Completed\<close> and one recording row
  is added whose duration is the job's \<open>endTime - startTime\<close> in rounded seconds.  In every
  other case the job becomes \<open>Error\<close> with a message that embeds the exit code, the stat
  error if there is one, and the last 1000 characters of stderr, no row is added, and a
  file of at most 1024 bytes is deleted.
\<close>

theorem recording_exit_classified:
  "let graceful = (code = Some 0 \<or> code = Some 255
                   \<or> js_includes ffmpegErrorOutput ''Exiting normally, received signal 2'');
       st' = on_stat job path ffmpegErrorOutput code res st
   in (\<forall>sz. res = Stats sz \<and> graceful \<and> 1024 < sz \<longrightarrow>
          dvr_jobs st' = map (\<lambda>r. if job_id r = job_id job
                                 then r\<lparr>status := Completed, ffmpeg_pid := None\<rparr> else r) (dvr_jobs st)
        \<and> (\<exists>row. dvr_recordings st' = dvr_recordings st @ [row]
              \<and> rec_job_id row = job_id job \<and> fileSizeBytes row = sz \<and> rec_filePath row = path
              \<and> durationSeconds row = (case (endTime job, startTime job) of
                    (Some e, Some s) \<Rightarrow> Some ((e - s + 500) div 1000) | _ \<Rightarrow> None))
        \<and> files st' = files st)
    \<and> (\<not> (\<exists>sz. res = Stats sz \<and> graceful \<and> 1024 < sz) \<longrightarrow>
          (\<exists>msg a b c.
              dvr_jobs st' = map (\<lambda>r. if job_id r = job_id job
                                 then r\<lparr>status := Error, ffmpeg_pid := None, errorMessage := Some msg\<rparr>
                                 else r) (dvr_jobs st)
            \<and> msg = a @ show_code code @ b @ (case res of StatErr m \<Rightarrow> m | Stats n \<Rightarrow> [])
                       @ c @ slice_last 1000 ffmpegErrorOutput)
        \<and> dvr_recordings st' = dvr_recordings st
        \<and> files st' = (if \<exists>sz \<le> 1024. res = Stats sz then (files st)(path := None) else files st))"
proof -
  have msg: "\<exists>a b c. finalErrorMessage code res ffmpegErrorOutput
       = a @ show_code code @ b @ (case res of StatErr m \<Rightarrow> m | Stats n \<Rightarrow> []) @ c @ slice_last 1000 ffmpegErrorOutput"
  proof (cases res)
    case (StatErr m)
    show ?thesis
      unfolding finalErrorMessage_def StatErr
      by (rule exI [of _ "''Recording failed. FFmpeg exit code: ''"],
          rule exI [of _ "''. File stat error: ''"],
          rule exI [of _ "''. FFmpeg output: ''"]) simp
  next
    case (Stats n)
    show ?thesis
      unfolding finalErrorMessage_def Stats
      by (rule exI [of _ "''Recording failed. FFmpeg exit code: ''"],
          rule exI [of _ "''. ''"],
          rule exI [of _ "''. FFmpeg output: ''"]) simp
  qed
  from msg obtain a b c where abc: "finalErrorMessage code res ffmpegErrorOutput
       = a @ show_code code @ b @ (case res of StatErr m \<Rightarrow> m | Stats n \<Rightarrow> []) @ c @ slice_last 1000 ffmpegErrorOutput"
    by blast
  define graceful where "graceful = (code = Some 0 \<or> code = Some 255
                   \<or> js_includes ffmpegErrorOutput ''Exiting normally, received signal 2'')"
  define st' where "st' = on_stat job path ffmpegErrorOutput code res st"
  have g: "(code = Some 0 \<or> wasStoppedIntentionally ffmpegErrorOutput code) = graceful"
    by (auto simp: graceful_def wasStoppedIntentionally_def)
  have ok: "dvr_jobs st' = map (\<lambda>r. if job_id r = job_id job
                                 then r\<lparr>status := Completed, ffmpeg_pid := None\<rparr> else r) (dvr_jobs st)
        \<and> (\<exists>row. dvr_recordings st' = dvr_recordings st @ [row]
              \<and> rec_job_id row = job_id job \<and> fileSizeBytes row = sz \<and> rec_filePath row = path
              \<and> durationSeconds row = (case (endTime job, startTime job) of
                    (Some e, Some s) \<Rightarrow> Some ((e - s + 500) div 1000) | _ \<Rightarrow> None))
        \<and> files st' = files st"
    if "res = Stats sz" "graceful" "1024 < sz" for sz
    using that unfolding st'_def
    by (simp add: on_stat_def g update_job_def Let_def round_seconds_def js_minus_def split: option.splits)
  have err: "dvr_jobs st' = map (\<lambda>r. if job_id r = job_id job
                 then r\<lparr>status := Error, ffmpeg_pid := None,
                        errorMessage := Some (finalErrorMessage code res ffmpegErrorOutput)\<rparr>
                 else r) (dvr_jobs st)
        \<and> dvr_recordings st' = dvr_recordings st
        \<and> files st' = (if \<exists>sz \<le> 1024. res = Stats sz then (files st)(path := None) else files st)"
    if "\<not> (\<exists>sz. res = Stats sz \<and> graceful \<and> 1024 < sz)"
  proof (cases res)
    case (StatErr m)
    then show ?thesis unfolding st'_def
      by (simp add: on_stat_def set_error_def update_job_def)
  next
    case (Stats sz)
    with that have "\<not> (graceful \<and> 1024 < sz)" by simp
    with Stats show ?thesis unfolding st'_def
      by (auto simp: on_stat_def g set_error_def update_job_def Let_def)
  qed
  have err': "(\<exists>msg a b c.
              dvr_jobs st' = map (\<lambda>r. if job_id r = job_id job
                                 then r\<lparr>status := Error, ffmpeg_pid := None, errorMessage := Some msg\<rparr>
                                 else r) (dvr_jobs st)
            \<and> msg = a @ show_code code @ b @ (case res of StatErr m \<Rightarrow> m | Stats n \<Rightarrow> [])
                       @ c @ slice_last 1000 ffmpegErrorOutput)
        \<and> dvr_recordings st' = dvr_recordings st
        \<and> files st' = (if \<exists>sz \<le> 1024. res = Stats sz then (files st)(path := None) else files st)"
    if n: "\<not> (\<exists>sz. res = Stats sz \<and> graceful \<and> 1024 < sz)"
  proof (intro conjI)
    show "\<exists>msg a b c.
              dvr_jobs st' = map (\<lambda>r. if job_id r = job_id job
                                 then r\<lparr>status := Error, ffmpeg_pid := None, errorMessage := Some msg\<rparr>
                                 else r) (dvr_jobs st)
            \<and> msg = a @ show_code code @ b @ (case res of StatErr m \<Rightarrow> m | Stats n \<Rightarrow> [])
                       @ c @ slice_last 1000 ffmpegErrorOutput"
      by (rule exI [of _ "finalErrorMessage code res ffmpegErrorOutput"], rule exI [of _ a],
          rule exI [of _ b], rule exI [of _ c]) (simp only: err [OF n] abc [symmetric] simp_thms)
    show "dvr_recordings st' = dvr_recordings st" using err [OF n] by (rule conjunct2 [THEN conjunct1])
    show "files st' = (if \<exists>sz \<le> 1024. res = Stats sz then (files st)(path := None) else files st)"
      using err [OF n] by (rule conjunct2 [THEN conjunct2])
  qed
  have "(\<forall>sz. res = Stats sz \<and> graceful \<and> 1024 < sz \<longrightarrow>
          dvr_jobs st' = map (\<lambda>r. if job_id r = job_id job
                                 then r\<lparr>status := Completed, ffmpeg_pid := None\<rparr> else r) (dvr_jobs st)
        \<and> (\<exists>row. dvr_recordings st' = dvr_recordings st @ [row]
              \<and> rec_job_id row = job_id job \<and> fileSizeBytes row = sz \<and> rec_filePath row = path
              \<and> durationSeconds row = (case (endTime job, startTime job) of
                    (Some e, Some s) \<Rightarrow> Some ((e - s + 500) div 1000) | _ \<Rightarrow> None))
        \<and> files st' = files st)"
    using ok by blast
  moreover have "\<not> (\<exists>sz. res = Stats sz \<and> graceful \<and> 1024 < sz) \<longrightarrow>
          (\<exists>msg a b c.
              dvr_jobs st' = map (\<lambda>r. if job_id r = job_id job
                                 then r\<lparr>status := Error, ffmpeg_pid := None, errorMessage := Some msg\<rparr>
                                 else r) (dvr_jobs st)
            \<and> msg = a @ show_code code @ b @ (case res of StatErr m \<Rightarrow> m | Stats n \<Rightarrow> [])
                       @ c @ slice_last 1000 ffmpegErrorOutput)
        \<and> dvr_recordings st' = dvr_recordings st
        \<and> files st' = (if \<exists>sz \<le> 1024. res = Stats sz then (files st)(path := None) else files st)"
    using err' by (rule impI)
  ultimately show ?thesis
    unfolding Let_def graceful_def [symmetric] st'_def [symmetric] by (rule conjI)
qed

text \<open>
  Exit code 255 with 1025 bytes completes the job (63 minutes, 3780 seconds); exit code 0
  with exactly 1024 bytes is an error and the file is removed.
\<close>

theorem recording_exit_witness:
  "map status (dvr_jobs (on_stat job_A ''/dvr/1_news.ts'' [] (Some 255) (Stats 1025) recording_A)) = [Completed]
   \<and> map durationSeconds (dvr_recordings (on_stat job_A ''/dvr/1_news.ts'' [] (Some 255) (Stats 1025) recording_A)) = [Some 3780]
   \<and> files (on_stat job_A ''/dvr/1_news.ts'' [] (Some 255) (Stats 1025) recording_A) ''/dvr/1_news.ts'' \<noteq> None
   \<and> map status (dvr_jobs (on_stat job_A ''/dvr/1_news.ts'' [] (Some 0) (Stats 1024) recording_A)) = [Error]
   \<and> dvr_recordings (on_stat job_A ''/dvr/1_news.ts'' [] (Some 0) (Stats 1024) recording_A) = []
   \<and> files (on_stat job_A ''/dvr/1_news.ts'' [] (Some 0) (Stats 1024) recording_A) ''/dvr/1_news.ts'' = None"
proof -
  have a: "map status (dvr_jobs (on_stat job_A ''/dvr/1_news.ts'' [] (Some 255) (Stats 1025) recording_A)) = [Completed]
   \<and> map durationSeconds (dvr_recordings (on_stat job_A ''/dvr/1_news.ts'' [] (Some 255) (Stats 1025) recording_A)) = [Some 3780]
   \<and> files (on_stat job_A ''/dvr/1_news.ts'' [] (Some 255) (Stats 1025) recording_A) ''/dvr/1_news.ts'' \<noteq> None"
    using recording_exit_classified [where code = "Some 255" and ffmpegErrorOutput = "[]"
        and res = "Stats 1025" and job = job_A and path = "''/dvr/1_news.ts''" and st = recording_A]
    by (auto simp: Let_def recording_A_def empty_dvr_def job_A_def)
  have b: "map status (dvr_jobs (on_stat job_A ''/dvr/1_news.ts'' [] (Some 0) (Stats 1024) recording_A)) = [Error]
   \<and> dvr_recordings (on_stat job_A ''/dvr/1_news.ts'' [] (Some 0) (Stats 1024) recording_A) = []
   \<and> files (on_stat job_A ''/dvr/1_news.ts'' [] (Some 0) (Stats 1024) recording_A) ''/dvr/1_news.ts'' = None"
    using recording_exit_classified [where code = "Some 0" and ffmpegErrorOutput = "[]"
        and res = "Stats 1024" and job = job_A and path = "''/dvr/1_news.ts''" and st = recording_A]
    by (auto simp: Let_def recording_A_def empty_dvr_def job_A_def)
  from a b show ?thesis by simp
qed

subsection \<open>Recovery at startup\<close>

text \<open>
  Claim C4.  The server starts with empty in-memory maps and no armed job; the ids of the
  persisted rows are distinct.  After the job loading, for every persisted row \<open>r\<close>, with
  \<open>now\<close> the time read while \<open>r\<close> is armed:
  \<^item> a row in status \<open>Recording\<close> is in status \<open>Error\<close> with the message
    \<^verbatim>\<open>Server restarted during recording.\<close>;
  \<^item> a scheduled row whose end is not after \<open>now\<close> is in status \<open>Error\<close> with the message
    \<^verbatim>\<open>Job was scheduled for a time in the past.\<close>, and no library job is armed for it;
  \<^item> a scheduled row whose start is not after \<open>now\<close> and whose end is after \<open>now\<close> has been
    started at once: no start job is registered, it is in status \<open>Recording\<close> with a tracked
    process (or in status \<open>Error\<close> when its channel, profile or user agent is unknown), and
    the only library job armed for it is the stop job at its end time;
  \<^item> a scheduled row whose start and end are after \<open>now\<close> is unchanged, its start job is
    armed at its start time and registered in \<^verbatim>\<open>activeDvrJobs\<close>, and its stop job is armed
    at its end time.
\<close>

theorem startup_recovery:
  assumes fresh: "activeDvrJobs st = Map.empty" "runningFFmpegProcesses st = Map.empty" "timers st = []"
      and ids: "distinct (map job_id (dvr_jobs st))"
      and r: "r \<in> set (dvr_jobs st)"
  shows "let st' = load_jobs e clock st; now = clock (job_id r) in
     (status r = Recording \<longrightarrow>
        job_row (job_id r) st' = Some (r\<lparr>status := Error, errorMessage := Some ''Server restarted during recording.''\<rparr>))
   \<and> (\<forall>en. status r = Scheduled \<and> endTime r = Some en \<and> en \<le> now \<longrightarrow>
        job_row (job_id r) st' = Some (r\<lparr>status := Error, errorMessage := Some ''Job was scheduled for a time in the past.''\<rparr>)
        \<and> (\<forall>t \<in> set (timers st'). timer_job t \<noteq> job_id r)
        \<and> runningFFmpegProcesses st' (job_id r) = None)
   \<and> (\<forall>sv en. status r = Scheduled \<and> startTime r = Some sv \<and> endTime r = Some en \<and> sv \<le> now \<and> now < en \<longrightarrow>
        (\<exists>row. job_row (job_id r) st' = Some row \<and> status row = (if resolves e r then Recording else Error))
        \<and> (resolves e r \<longrightarrow> runningFFmpegProcesses st' (job_id r) \<noteq> None)
        \<and> activeDvrJobs st' (job_id r) = None
        \<and> (\<exists>h < length (timers st'). timers st' ! h = \<lparr>fire_at = en, action = StopRecordingOf (job_id r), timer_status = Pending\<rparr>
              \<and> (\<forall>t \<in> set (timers st'). timer_job t = job_id r \<longrightarrow> t = timers st' ! h)))
   \<and> (\<forall>sv en. status r = Scheduled \<and> startTime r = Some sv \<and> endTime r = Some en \<and> now < sv \<and> now < en \<longrightarrow>
        job_row (job_id r) st' = Some r
        \<and> runningFFmpegProcesses st' (job_id r) = None
        \<and> (\<exists>h < length (timers st'). activeDvrJobs st' (job_id r) = Some (Some h)
              \<and> timers st' ! h = \<lparr>fire_at = sv, action = StartRecordingOf r, timer_status = Pending\<rparr>)
        \<and> (\<exists>h < length (timers st'). timers st' ! h = \<lparr>fire_at = en, action = StopRecordingOf (job_id r), timer_status = Pending\<rparr>))"
proof -
  let ?g = "\<lambda>r. if status r = Recording
                then r\<lparr>status := Error, errorMessage := Some ''Server restarted during recording.''\<rparr> else r"
  define st1 where "st1 = st\<lparr>dvr_jobs := map ?g (dvr_jobs st)\<rparr>"
  define jobs where "jobs = filter (\<lambda>r. status r = Scheduled) (dvr_jobs st1)"
  define st' where "st' = load_jobs e clock st"
  define now where "now = clock (job_id r)"
  have st'_eq: "st' = fold (\<lambda>job. scheduleDvrJob e (clock (job_id job)) job) jobs st1"
    by (simp add: st'_def load_jobs_def Let_def jobs_def st1_def)
  have gid: "job_id (?g x) = job_id x" for x by simp
  have gid': "(\<lambda>x. job_id (?g x)) = job_id" by (rule ext) simp
  have ids1: "distinct (map job_id (dvr_jobs st1))"
    using ids by (simp add: st1_def comp_def gid')
  have dist: "distinct (map job_id jobs)"
    unfolding jobs_def using ids1 by (rule distinct_map_filter)
  have none: "\<forall>k \<in> set jobs. activeDvrJobs st1 (job_id k) = None"
    by (simp add: st1_def fresh)
  note F = fold_schedule_views [OF dist none, of e clock, folded st'_eq]
  have row1: "job_row (job_id r) st1 = Some (?g r)"
  proof -
    have "job_row (job_id r) st1 = map_option ?g (List.find (\<lambda>x. job_id x = job_id r) (dvr_jobs st))"
      unfolding job_row_def st1_def using find_map_same_id [of ?g "job_id r" "dvr_jobs st"] by simp
    with find_distinct_id [OF ids r] show ?thesis by simp
  qed
  have view1: "job_view (job_id r) st1 = (Some (?g r), None, None, [])"
    using row1 by (simp add: job_view_def) (simp add: st1_def fresh)
  have mem: "?g r \<in> set (dvr_jobs st1)" using r by (simp add: st1_def)
  have sched_in: "r \<in> set jobs" if "status r = Scheduled"
    using that mem by (simp add: jobs_def)
  \<comment> \<open>a job that was being recorded\<close>
  have A: "job_row (job_id r) st' = Some (r\<lparr>status := Error, errorMessage := Some ''Server restarted during recording.''\<rparr>)"
    if rec: "status r = Recording"
  proof -
    have "job_id r \<notin> job_id ` set jobs"
    proof
      assume "job_id r \<in> job_id ` set jobs"
      then obtain k where k: "k \<in> set jobs" "job_id k = job_id r" by auto
      then have kin: "k \<in> set (dvr_jobs st1)" and ks: "status k = Scheduled" by (simp_all add: jobs_def)
      from find_distinct_id [OF ids1 kin] k(2) row1 have "k = ?g r" by (simp add: job_row_def)
      with ks rec show False by simp
    qed
    with F have "job_view (job_id r) st' = job_view (job_id r) st1" by blast
    with view1 rec show ?thesis by (simp add: job_view_def)
  qed
  \<comment> \<open>a scheduled job\<close>
  have S: "\<exists>s. job_view (job_id r) s = (Some r, None, None, [])
            \<and> job_view (job_id r) st' = job_view (job_id r) (scheduleDvrJob e now r s)"
    if "status r = Scheduled"
    using F sched_in [OF that] view1 that unfolding now_def by fastforce
  have B: "job_row (job_id r) st' = Some (r\<lparr>status := Error, errorMessage := Some ''Job was scheduled for a time in the past.''\<rparr>)
        \<and> (\<forall>t \<in> set (timers st'). timer_job t \<noteq> job_id r)
        \<and> runningFFmpegProcesses st' (job_id r) = None"
    if "status r = Scheduled" "endTime r = Some en" "en \<le> now" for en
  proof -
    from S [OF that(1)] obtain s where s: "job_view (job_id r) s = (Some r, None, None, [])"
      and eq: "job_view (job_id r) st' = job_view (job_id r) (scheduleDvrJob e now r s)" by blast
    from view_past [OF s that, of e] eq have v: "job_view (job_id r) st'
        = (Some (r\<lparr>status := Error, errorMessage := Some ''Job was scheduled for a time in the past.''\<rparr>), None, None, [])"
      by simp
    have "\<forall>t \<in> set (timers st'). timer_job t \<noteq> job_id r"
    proof (intro ballI notI)
      fix t assume "t \<in> set (timers st')" "timer_job t = job_id r"
      from view_timers_all [OF this] v show False by simp
    qed
    with v show ?thesis by (simp add: job_view_def)
  qed
  have C: "(\<exists>row. job_row (job_id r) st' = Some row \<and> status row = (if resolves e r then Recording else Error))
        \<and> (resolves e r \<longrightarrow> runningFFmpegProcesses st' (job_id r) \<noteq> None)
        \<and> activeDvrJobs st' (job_id r) = None
        \<and> (\<exists>h < length (timers st'). timers st' ! h = \<lparr>fire_at = en, action = StopRecordingOf (job_id r), timer_status = Pending\<rparr>
              \<and> (\<forall>t \<in> set (timers st'). timer_job t = job_id r \<longrightarrow> t = timers st' ! h))"
    if "status r = Scheduled" "startTime r = Some sv" "endTime r = Some en" "sv \<le> now" "now < en" for sv en
  proof -
    from S [OF that(1)] obtain s where s: "job_view (job_id r) s = (Some r, None, None, [])"
      and eq: "job_view (job_id r) st' = job_view (job_id r) (scheduleDvrJob e now r s)" by blast
    from view_now [OF s that(2-5), of e] eq obtain h row pid where
      v: "job_view (job_id r) st' = (Some row, None, pid,
              [(h, \<lparr>fire_at = en, action = StopRecordingOf (job_id r), timer_status = Pending\<rparr>)])"
      and row: "status row = (if resolves e r then Recording else Error)"
      and pid: "resolves e r \<longrightarrow> pid \<noteq> None" by auto
    from v have "(h, \<lparr>fire_at = en, action = StopRecordingOf (job_id r), timer_status = Pending\<rparr>)
        \<in> set (snd (snd (snd (job_view (job_id r) st'))))" by simp
    from view_timer_at [OF this] have h: "h < length (timers st')"
      "timers st' ! h = \<lparr>fire_at = en, action = StopRecordingOf (job_id r), timer_status = Pending\<rparr>" by simp_all
    have only: "\<forall>t \<in> set (timers st'). timer_job t = job_id r \<longrightarrow> t = timers st' ! h"
    proof (intro ballI impI)
      fix t assume "t \<in> set (timers st')" "timer_job t = job_id r"
      from view_timers_all [OF this] v h show "t = timers st' ! h" by simp
    qed
    from v row pid h only show ?thesis by (auto simp: job_view_def)
  qed
  have D: "job_row (job_id r) st' = Some r
        \<and> runningFFmpegProcesses st' (job_id r) = None
        \<and> (\<exists>h < length (timers st'). activeDvrJobs st' (job_id r) = Some (Some h)
              \<and> timers st' ! h = \<lparr>fire_at = sv, action = StartRecordingOf r, timer_status = Pending\<rparr>)
        \<and> (\<exists>h < length (timers st'). timers st' ! h = \<lparr>fire_at = en, action = StopRecordingOf (job_id r), timer_status = Pending\<rparr>)"
    if "status r = Scheduled" "startTime r = Some sv" "endTime r = Some en" "now < sv" "now < en" for sv en
  proof -
    from S [OF that(1)] obtain s where s: "job_view (job_id r) s = (Some r, None, None, [])"
      and eq: "job_view (job_id r) st' = job_view (job_id r) (scheduleDvrJob e now r s)" by blast
    from view_future [OF s that(2-5), of e] eq obtain h where
      v: "job_view (job_id r) st' = (Some r, Some (Some h), None,
              [(h, \<lparr>fire_at = sv, action = StartRecordingOf r, timer_status = Pending\<rparr>),
               (Suc h, \<lparr>fire_at = en, action = StopRecordingOf (job_id r), timer_status = Pending\<rparr>)])" by auto
    from v have "(h, \<lparr>fire_at = sv, action = StartRecordingOf r, timer_status = Pending\<rparr>)
        \<in> set (snd (snd (snd (job_view (job_id r) st'))))" by simp
    from view_timer_at [OF this] have h1: "h < length (timers st')"
      "timers st' ! h = \<lparr>fire_at = sv, action = StartRecordingOf r, timer_status = Pending\<rparr>" by simp_all
    from v have "(Suc h, \<lparr>fire_at = en, action = StopRecordingOf (job_id r), timer_status = Pending\<rparr>)
        \<in> set (snd (snd (snd (job_view (job_id r) st'))))" by simp
    from view_timer_at [OF this] have h2: "Suc h < length (timers st')"
      "timers st' ! Suc h = \<lparr>fire_at = en, action = StopRecordingOf (job_id r), timer_status = Pending\<rparr>" by simp_all
    from v h1 h2 show ?thesis by (auto simp: job_view_def)
  qed
  from A B C D show ?thesis
    unfolding Let_def st'_def [symmetric] now_def [symmetric] by blast
qed

text \<open>The four jobs of the example table end up as the four cases say.\<close>

theorem startup_recovery_witness:
  "job_row 1 (load_jobs scenario_env (\<lambda>i. 1704141000000) restart_state)
      = Some (job_A\<lparr>status := Error, errorMessage := Some ''Server restarted during recording.''\<rparr>)
   \<and> job_row 2 (load_jobs scenario_env (\<lambda>i. 1704141000000) restart_state)
      = Some (job_A\<lparr>job_id := 2, startTime := Some 1704130000000, endTime := Some 1704133600000,
                     status := Error, errorMessage := Some ''Job was scheduled for a time in the past.''\<rparr>)
   \<and> (\<exists>row. job_row 3 (load_jobs scenario_env (\<lambda>i. 1704141000000) restart_state) = Some row
          \<and> status row = Recording)
   \<and> runningFFmpegProcesses (load_jobs scenario_env (\<lambda>i. 1704141000000) restart_state) 3 \<noteq> None
   \<and> job_row 4 (load_jobs scenario_env (\<lambda>i. 1704141000000) restart_state)
      = Some (job_A\<lparr>job_id := 4, startTime := Some 1704146340000, endTime := Some 1704150120000\<rparr>)
   \<and> activeDvrJobs (load_jobs scenario_env (\<lambda>i. 1704141000000) restart_state) 4 \<noteq> None"
proof -
  have fresh: "activeDvrJobs restart_state = Map.empty" "runningFFmpegProcesses restart_state = Map.empty"
    "timers restart_state = []"
    by (simp_all add: restart_state_def empty_dvr_def)
  have ids: "distinct (map job_id (dvr_jobs restart_state))"
    by (simp add: restart_state_def job_A_def)
  have res: "resolves scenario_env (job_A\<lparr>job_id := 3\<rparr>)"
    by (simp add: resolves_def scenario_env_def scenario_settings_def job_A_def find_profile_def find_user_agent_def)
  have m1: "job_A\<lparr>status := Recording\<rparr> \<in> set (dvr_jobs restart_state)"
    and m2: "job_A\<lparr>job_id := 2, startTime := Some 1704130000000, endTime := Some 1704133600000\<rparr> \<in> set (dvr_jobs restart_state)"
    and m3: "job_A\<lparr>job_id := 3\<rparr> \<in> set (dvr_jobs restart_state)"
    and m4: "job_A\<lparr>job_id := 4, startTime := Some 1704146340000, endTime := Some 1704150120000\<rparr> \<in> set (dvr_jobs restart_state)"
    by (simp_all add: restart_state_def)
  from startup_recovery [OF fresh ids m1, of scenario_env "\<lambda>i. 1704141000000"]
  have a: "job_row 1 (load_jobs scenario_env (\<lambda>i. 1704141000000) restart_state)
      = Some (job_A\<lparr>status := Error, errorMessage := Some ''Server restarted during recording.''\<rparr>)"
    by (simp add: Let_def job_A_def)
  from startup_recovery [OF fresh ids m2, of scenario_env "\<lambda>i. 1704141000000"]
  have b: "job_row 2 (load_jobs scenario_env (\<lambda>i. 1704141000000) restart_state)
      = Some (job_A\<lparr>job_id := 2, startTime := Some 1704130000000, endTime := Some 1704133600000,
                     status := Error, errorMessage := Some ''Job was scheduled for a time in the past.''\<rparr>)"
    by (simp add: Let_def job_A_def)
  from startup_recovery [OF fresh ids m3, of scenario_env "\<lambda>i. 1704141000000"] res
  have c: "(\<exists>row. job_row 3 (load_jobs scenario_env (\<lambda>i. 1704141000000) restart_state) = Some row
          \<and> status row = Recording)
     \<and> runningFFmpegProcesses (load_jobs scenario_env (\<lambda>i. 1704141000000) restart_state) 3 \<noteq> None"
    by (simp add: Let_def job_A_def)
  from startup_recovery [OF fresh ids m4, of scenario_env "\<lambda>i. 1704141000000"]
  have d: "job_row 4 (load_jobs scenario_env (\<lambda>i. 1704141000000) restart_state)
      = Some (job_A\<lparr>job_id := 4, startTime := Some 1704146340000, endTime := Some 1704150120000\<rparr>)
     \<and> activeDvrJobs (load_jobs scenario_env (\<lambda>i. 1704141000000) restart_state) 4 \<noteq> None"
    by (auto simp: Let_def job_A_def)
  from a b c d show ?thesis by blast
qed

subsection \<open>The stop job of a recording\<close>

text \<open>
  Claim C10.  Arming a job whose window lies ahead adds two library jobs, the start job at
  handle \<open>h\<close> and the stop job at handle \<open>h + 1\<close>, and registers only \<open>h\<close> in
  \<^verbatim>\<open>activeDvrJobs\<close>.  Cancelling the job disarms the start job and leaves the stop job
  pending; rescheduling it leaves the old stop job pending too, with its old time.  When
  the stop job comes due it calls \<^verbatim>\<open>stopRecording\<close> for the job id, which changes nothing
  when no pid is tracked and otherwise sends SIGINT to the tracked pid (followed by SIGKILL
  when sending SIGINT throws).
\<close>

theorem stop_job_never_cancelled:
  assumes "startTime job = Some sv" "endTime job = Some en" "now < sv" "now < en"
  shows "let st1 = scheduleDvrJob e now job st;
             h = length (timers st);
             stop = \<lparr>fire_at = en, action = StopRecordingOf (job_id job), timer_status = Pending\<rparr>
         in timers st1 ! h = \<lparr>fire_at = sv, action = StartRecordingOf job, timer_status = Pending\<rparr>
          \<and> timers st1 ! Suc h = stop
          \<and> length (timers st1) = h + 2
          \<and> activeDvrJobs st1 = (activeDvrJobs st)(job_id job \<mapsto> Some h)
          \<and> (\<forall>sess. timers (snd (delete_job sess (job_id job) st1)) ! Suc h = stop
                \<and> timer_status (timers (snd (delete_job sess (job_id job) st1)) ! h) = Disarmed)
          \<and> (\<forall>now' sess ns ne. timers (snd (put_job e now' sess (job_id job) ns ne st1)) ! Suc h = stop)
          \<and> (\<forall>s kill_throws. Suc h < length (timers s) \<and> timers s ! Suc h = stop \<longrightarrow>
                fire_timer e kill_throws (Suc h) s
                  = stopRecording kill_throws (job_id job)
                      (s\<lparr>timers := (timers s)[Suc h := stop\<lparr>timer_status := Fired\<rparr>]\<rparr>))
          \<and> (\<forall>s kill_throws. (\<forall>pid. runningFFmpegProcesses s (job_id job) \<noteq> Some (Some (Suc pid))) \<longrightarrow>
                stopRecording kill_throws (job_id job) s = s)
          \<and> (\<forall>s kill_throws pid. runningFFmpegProcesses s (job_id job) = Some (Some (Suc pid)) \<longrightarrow>
                stopRecording kill_throws (job_id job) s
                   = s\<lparr>signals := signals s @ (Suc pid, SIGINT)
                          # (if kill_throws then [(Suc pid, SIGKILL)] else [])\<rparr>)"
proof -
  define st1 where "st1 = scheduleDvrJob e now job st"
  define h where "h = length (timers st)"
  define stop where "stop = \<lparr>fire_at = en, action = StopRecordingOf (job_id job), timer_status = Pending\<rparr>"
  let ?f = "forget_start_job (job_id job) st"
  have st1: "st1 = ?f\<lparr>timers := timers ?f @
           [\<lparr>fire_at = sv, action = StartRecordingOf job, timer_status = Pending\<rparr>, stop],
        activeDvrJobs := (activeDvrJobs st)(job_id job \<mapsto> Some h)\<rparr>"
    unfolding st1_def h_def stop_def by (rule scheduleDvrJob_future [OF assms])
  have lf: "length (timers ?f) = h" by (simp add: h_def forget_start_job_timers)
  have t0: "timers st1 ! h = \<lparr>fire_at = sv, action = StartRecordingOf job, timer_status = Pending\<rparr>"
    and t1: "timers st1 ! Suc h = stop"
    and len: "length (timers st1) = h + 2"
    and m: "activeDvrJobs st1 = (activeDvrJobs st)(job_id job \<mapsto> Some h)"
    unfolding st1 using lf by (simp_all add: nth_append)
  have del: "timers (snd (delete_job sess (job_id job) st1)) ! Suc h = stop
             \<and> timer_status (timers (snd (delete_job sess (job_id job) st1)) ! h) = Disarmed" for sess
  proof -
    have "timers (snd (delete_job sess (job_id job) st1)) ! Suc h = timers st1 ! Suc h"
      by (rule delete_job_keeps) (simp add: m)
    moreover have "timer_status (timers (snd (delete_job sess (job_id job) st1)) ! h) = Disarmed"
      using t0 len by (simp add: delete_job_def forget_start_job_def m cancel_def)
    ultimately show ?thesis using t1 by simp
  qed
  have put: "timers (snd (put_job e now' sess (job_id job) ns ne st1)) ! Suc h = stop" for now' sess ns ne
  proof -
    have "timers (snd (put_job e now' sess (job_id job) ns ne st1)) ! Suc h = timers st1 ! Suc h"
      by (rule put_job_keeps) (simp_all add: m len)
    with t1 show ?thesis by simp
  qed
  have fire: "fire_timer e kill_throws (Suc h) s
                  = stopRecording kill_throws (job_id job)
                      (s\<lparr>timers := (timers s)[Suc h := stop\<lparr>timer_status := Fired\<rparr>]\<rparr>)"
    if "Suc h < length (timers s) \<and> timers s ! Suc h = stop" for s kill_throws
    using that by (simp add: fire_timer_def stop_def)
  have noop: "stopRecording kill_throws (job_id job) s = s"
    if "\<forall>pid. runningFFmpegProcesses s (job_id job) \<noteq> Some (Some (Suc pid))" for s kill_throws
  proof (cases "runningFFmpegProcesses s (job_id job)")
    case None
    then show ?thesis by (simp add: stopRecording_def)
  next
    case (Some p)
    show ?thesis
    proof (cases p)
      case None
      with Some show ?thesis by (simp add: stopRecording_def)
    next
      case (Some pid)
      with \<open>runningFFmpegProcesses s (job_id job) = Some p\<close> that have "pid = 0" by (cases pid) auto
      with Some \<open>runningFFmpegProcesses s (job_id job) = Some p\<close> show ?thesis by (simp add: stopRecording_def)
    qed
  qed
  have sig: "stopRecording kill_throws (job_id job) s
       = s\<lparr>signals := signals s @ (Suc pid, SIGINT) # (if kill_throws then [(Suc pid, SIGKILL)] else [])\<rparr>"
    if "runningFFmpegProcesses s (job_id job) = Some (Some (Suc pid))" for s kill_throws pid
    using that by (cases kill_throws) (simp_all add: stopRecording_def)
  from t0 t1 len m del put fire noop sig show ?thesis
    unfolding Let_def st1_def [symmetric] h_def [symmetric] stop_def [symmetric] by blast
qed

text \<open>
  For the job 19:59:00Z to 21:02:00Z armed at handles 0 and 1: after a cancel, and after a
  reschedule to 21:59:00Z, handle 1 is still the pending stop job for 21:02:00Z.
\<close>

theorem stop_job_never_cancelled_witness:
  "timers (snd (delete_job \<lparr>userId = 1, isAdmin = False\<rparr> 1
             (scheduleDvrJob scenario_env 1704100000000 job_A dvr_with_A))) ! 1
     = \<lparr>fire_at = 1704142920000, action = StopRecordingOf 1, timer_status = Pending\<rparr>
   \<and> timer_status (timers (snd (delete_job \<lparr>userId = 1, isAdmin = False\<rparr> 1
             (scheduleDvrJob scenario_env 1704100000000 job_A dvr_with_A))) ! 0) = Disarmed
   \<and> timers (snd (put_job scenario_env 1704100000000 \<lparr>userId = 1, isAdmin = False\<rparr> 1
             (Some (Some 1704146340000)) (Some (Some 1704150120000))
             (scheduleDvrJob scenario_env 1704100000000 job_A dvr_with_A))) ! 1
     = \<lparr>fire_at = 1704142920000, action = StopRecordingOf 1, timer_status = Pending\<rparr>"
proof -
  have a: "startTime job_A = Some 1704139140000" "endTime job_A = Some 1704142920000"
    "(1704100000000::int) < 1704139140000" "(1704100000000::int) < 1704142920000"
    by (simp_all add: job_A_def)
  have l: "length (timers dvr_with_A) = 0" "job_id job_A = 1"
    by (simp_all add: dvr_with_A_def empty_dvr_def job_A_def)
  from stop_job_never_cancelled [OF a, of scenario_env dvr_with_A] show ?thesis
    unfolding Let_def l by simp
qed

subsection \<open>Terminal states\<close>

text \<open>
  The reschedule endpoint refuses a job that is not \<open>Scheduled\<close> and changes nothing.
\<close>

lemma put_job_guards_status:
  assumes "List.find (authorized sess i) (dvr_jobs st) = Some job" "status job \<noteq> Scheduled"
  shows "put_job e now sess i (Some ns) (Some ne) st = (BadRequest400, st)"
  using assms by (simp add: put_job_def)

text \<open>
  Claim C7 says that no operation changes the status of a job in a terminal state.  The
  stop and the cancel endpoint update the status whatever it was: stopping the failed job
  turns \<open>Error\<close> into \<open>Completed\<close>, and cancelling it turns \<open>Error\<close> into \<open>Cancelled\<close>.
\<close>

theorem stop_overwrites_terminal_status:
  "post_stop False \<lparr>userId = 1, isAdmin = False\<rparr> 1 failed_A
     = (Ok200, failed_A\<lparr>dvr_jobs := [job_A\<lparr>status := Completed, errorMessage := Some ''User agent not found.''\<rparr>]\<rparr>)
   \<and> map status (dvr_jobs (snd (delete_job \<lparr>userId = 1, isAdmin = False\<rparr> 1 failed_A))) = [Cancelled]"
  by (simp add: post_stop_def delete_job_def forget_start_job_def stopRecording_def set_status_where_def
      authorized_def failed_A_def empty_dvr_def job_A_def)

section \<open>Properties of the live streams\<close>

lemma show_nat_1 [simp]: "show_nat (Suc 0) = ''1''"
  by (simp add: show_nat.simps digit_char_def)

lemma channel_key_eq: "streamKey (userId viewer) (url channel_request) (req_profileId channel_request) = channel_key"
  by (simp add: streamKey_def viewer_def channel_request_def channel_key_def show_undefined_def)

text \<open>A request for a key that is in the table spawns nothing and counts one more reference.\<close>

lemma attach_existing_taps:
  assumes "map_of (activeStreamProcesses st) (streamKey (userId sess) (url req) (req_profileId req)) = Some info"
  shows "get_stream s now sess req st =
           (PipedExisting (process info),
            st\<lparr>activeStreamProcesses := map_set (streamKey (userId sess) (url req) (req_profileId req))
                  (info\<lparr>references := references info + 1, lastAccess := now\<rparr>) (activeStreamProcesses st)\<rparr>)"
  using assms by (simp add: get_stream_def)

lemma map_of_map_set: "map_of (map_set k v es) k' = (if k' = k then Some v else map_of es k')"
  by (induction es) auto

lemma map_set_keys: "map_of es k \<noteq> None \<Longrightarrow> map fst (map_set k v es) = map fst es"
  by (induction es) auto

lemma map_set_keys_new: "map_of es k = None \<Longrightarrow> map fst (map_set k v es) = map fst es @ [k]"
  by (induction es) auto

lemma map_of_map_delete: "map_of (map_delete k es) k' = (if k' = k then None else map_of es k')"
  by (induction es) (auto simp: map_delete_def)

text \<open>The table never holds a key twice.\<close>

lemma distinct_map_set: "distinct (map fst es) \<Longrightarrow> distinct (map fst (map_set k v es))"
  by (cases "map_of es k") (auto simp: map_set_keys map_set_keys_new map_of_eq_None_iff)

lemma distinct_map_delete: "distinct (map fst es) \<Longrightarrow> distinct (map fst (map_delete k es))"
  by (simp add: map_delete_def distinct_map_filter)

text \<open>One sweep of the janitor, entry by entry.\<close>

lemma sweep_result:
  "activeStreamProcesses (sweep kt now es st)
      = filter (\<lambda>e. fst e \<notin> fst ` {x \<in> set es. stale now (snd x)}) (activeStreamProcesses st)
   \<and> killed (sweep kt now es st)
      = killed st @ map (\<lambda>e. process (snd e)) (filter (\<lambda>e. stale now (snd e) \<and> \<not> kt (process (snd e))) es)
   \<and> stream_history (sweep kt now es st)
      = fold (\<lambda>e rows. if stale now (snd e) then finish_history now (snd e) rows else rows) es (stream_history st)
   \<and> stream_history_seq (sweep kt now es st) = stream_history_seq st
   \<and> spawned (sweep kt now es st) = spawned st"
proof (induction es arbitrary: st)
  case Nil
  then show ?case by simp
next
  case (Cons e es)
  obtain key info where e: "e = (key, info)" by (cases e)
  show ?case
  proof (cases "stale now info")
    case False
    have "{x \<in> set (e # es). stale now (snd x)} = {x \<in> set es. stale now (snd x)}"
      using False e by auto
    with False e Cons.IH [of st] show ?thesis by simp
  next
    case True
    have s: "fst ` {x \<in> set (e # es). stale now (snd x)} = insert key (fst ` {x \<in> set es. stale now (snd x)})"
      using True e by (auto simp: image_iff)
    show ?thesis
    proof (cases "kt (process info)")
      case kt: True
      let ?st = "st\<lparr>stream_history := finish_history now info (stream_history st),
                    activeStreamProcesses := map_delete key (activeStreamProcesses st)\<rparr>"
      from Cons.IH [of ?st] True kt e s show ?thesis
        by (simp add: Let_def map_delete_def conj_commute)
    next
      case kt: False
      let ?st = "st\<lparr>stream_history := finish_history now info (stream_history st),
                    killed := killed st @ [process info],
                    activeStreamProcesses := map_delete key (activeStreamProcesses st)\<rparr>"
      from Cons.IH [of ?st] True kt e s show ?thesis
        by (simp add: Let_def map_delete_def conj_commute)
    qed
  qed
qed

lemma stale_keys_distinct:
  assumes "distinct (map fst es)"
  shows "filter (\<lambda>e. fst e \<notin> fst ` {x \<in> set es. stale now (snd x)}) es = filter (\<lambda>e. \<not> stale now (snd e)) es"
proof (rule filter_cong [OF refl])
  fix e assume e: "e \<in> set es"
  show "(fst e \<notin> fst ` {x \<in> set es. stale now (snd x)}) = (\<not> stale now (snd e))"
  proof -
    have u: "x = e" if "x \<in> set es" "fst x = fst e" for x
    proof -
      from that(1) have "(fst x, snd x) \<in> set es" by simp
      moreover from e that(2) have "(fst x, snd e) \<in> set es" by simp
      ultimately have "snd x = snd e" using assms by (rule eq_key_imp_eq_value [rotated])
      with that(2) show ?thesis by (simp add: prod_eq_iff)
    qed
    show ?thesis
    proof
      assume "fst e \<notin> fst ` {x \<in> set es. stale now (snd x)}"
      with e show "\<not> stale now (snd e)" by (auto simp: image_iff)
    next
      assume n: "\<not> stale now (snd e)"
      show "fst e \<notin> fst ` {x \<in> set es. stale now (snd x)}"
      proof
        assume "fst e \<in> fst ` {x \<in> set es. stale now (snd x)}"
        then obtain x where "x \<in> set es" "stale now (snd x)" "fst x = fst e" by (auto simp: image_iff)
        with u [of x] n show False by simp
      qed
    qed
  qed
qed

lemma janitor_period:
  assumes "start \<le> a + 30000"
  shows "\<exists>n. a + 30000 < janitor_run start n \<and> janitor_run start n \<le> a + 30000 + 60000"
proof -
  define n where "n = nat ((a + 30000 - start) div 60000) + 1"
  have d: "0 \<le> (a + 30000 - start) div 60000" using assms by simp
  have "int n = (a + 30000 - start) div 60000 + 1" using d by (simp add: n_def)
  then have "janitor_run start n = start + ((a + 30000 - start) div 60000) * 60000 + 60000"
    by (simp add: janitor_run_def algebra_simps)
  moreover have "(a + 30000 - start) div 60000 * 60000 \<le> a + 30000 - start"
    using div_mult_mod_eq [of "a + 30000 - start" 60000] pos_mod_sign [of 60000 "a + 30000 - start"]
    by linarith
  moreover have "a + 30000 - start < (a + 30000 - start) div 60000 * 60000 + 60000"
    using div_mult_mod_eq [of "a + 30000 - start" 60000] pos_mod_bound [of 60000 "a + 30000 - start"]
    by linarith
  ultimately show ?thesis by (intro exI [of _ n]) linarith
qed

text \<open>With a profile id, the stop endpoint looks up the key that the request for the stream used.\<close>

lemma stop_key_with_profile:
  "p \<noteq> [] \<Longrightarrow> stop_key uid u (Some p) table = streamKey uid (Some u) (Some p)"
  by (simp add: stop_key_def streamKey_def show_undefined_def)

lemma finish_history_row:
  assumes "r \<in> set rows" "history_id r = historyId info" "historyId info \<noteq> 0" "history_status r = Playing"
  shows "r\<lparr>end_time := Some now, duration_seconds := Some ((now - stream_startTime info + 500) div 1000),
           history_status := Stopped\<rparr> \<in> set (finish_history now info rows)"
  using assms by (auto simp: finish_history_def image_iff intro!: bexI [of _ r])

subsection \<open>Two requests for one key\<close>

text \<open>
  Claim C1 says that two concurrent requests with the same key spawn exactly one process
  and that the reference count is the number of attached requests.  A stream enters the
  table only in the callback of its history INSERT, so a second request handled before that
  callback finds no entry and spawns again: two processes run, and the table ends with the
  single entry of the second process at a reference count of 1, while two requests are
  attached.
\<close>

theorem racing_attaches_spawn_twice:
  "fst first_attach = PipedNew \<lparr>pending_key = channel_key, pending_process = 0, pending_startTime = 1000\<rparr>
   \<and> fst second_attach = PipedNew \<lparr>pending_key = channel_key, pending_process = 1, pending_startTime = 1001\<rparr>
   \<and> length (spawned both_registered) = 2
   \<and> map (\<lambda>e. (fst e, process (snd e), references (snd e))) (activeStreamProcesses both_registered)
        = [(channel_key, 1, 1)]"
proof -
  have prof: "find_profile (streamProfiles scenario_settings) (req_profileId channel_request)
        = Some (streamProfiles scenario_settings ! 1)"
    by (simp add: find_profile_def scenario_settings_def channel_request_def)
  have notredirect: "command (streamProfiles scenario_settings ! 1) \<noteq> ''redirect''"
    by (simp add: scenario_settings_def)
  have ua: "find_user_agent (userAgents scenario_settings) (req_userAgentId channel_request)
        = Some (userAgents scenario_settings ! 0)"
    by (simp add: find_user_agent_def scenario_settings_def channel_request_def)
  have u: "url channel_request = Some ''http://example.com/live/1.ts''"
    by (simp add: channel_request_def)
  have a1: "first_attach = (PipedNew \<lparr>pending_key = channel_key, pending_process = 0, pending_startTime = 1000\<rparr>,
       empty_streams\<lparr>spawned := [stream_args scenario_settings (streamProfiles scenario_settings ! 1)
           ''http://example.com/live/1.ts'' (ua_value (userAgents scenario_settings ! 0))]\<rparr>)"
    unfolding first_attach_def get_stream_def Let_def channel_key_eq prof ua
    using notredirect by (simp add: empty_streams_def u)
  have a2: "second_attach = (PipedNew \<lparr>pending_key = channel_key, pending_process = 1, pending_startTime = 1001\<rparr>,
       empty_streams\<lparr>spawned := [stream_args scenario_settings (streamProfiles scenario_settings ! 1)
           ''http://example.com/live/1.ts'' (ua_value (userAgents scenario_settings ! 0)),
          stream_args scenario_settings (streamProfiles scenario_settings ! 1)
           ''http://example.com/live/1.ts'' (ua_value (userAgents scenario_settings ! 0))]\<rparr>)"
    unfolding second_attach_def get_stream_def Let_def channel_key_eq prof ua a1
    using notredirect by (simp add: empty_streams_def u)
  show ?thesis
    unfolding both_registered_def a2 a1
    by (simp add: on_history_inserted_def Let_def empty_streams_def)
qed

subsection \<open>Stopping a stream\<close>

text \<open>
  Claim C5.  For the entry that \<^verbatim>\<open>POST /api/stream/stop\<close> finds under its key: with more
  than one reference the answer is a success and the state is unchanged (the process
  lives, the entry stays, the count is the same).  With at most one reference, when the
  kill goes through, the process is sent SIGKILL, the entry leaves the table, and the
  history row of the stream, if it is still \<open>Playing\<close>, is closed with the end time and the
  duration.
\<close>

theorem stop_last_closer:
  assumes "u \<noteq> []"
      and "map_of (activeStreamProcesses st) (stop_key (userId sess) u pid (activeStreamProcesses st)) = Some info"
  shows "let key = stop_key (userId sess) u pid (activeStreamProcesses st);
             (answer, st') = post_stream_stop kill_throws now sess (Some u) pid st
         in (references info > 1 \<longrightarrow> answer = KeptAlive \<and> st' = st)
          \<and> (references info \<le> 1 \<and> \<not> kill_throws \<longrightarrow>
                answer = Terminated
              \<and> killed st' = killed st @ [process info]
              \<and> map_of (activeStreamProcesses st') key = None
              \<and> activeStreamProcesses st' = filter (\<lambda>e. fst e \<noteq> key) (activeStreamProcesses st)
              \<and> stream_history st' = finish_history now info (stream_history st)
              \<and> (\<forall>r \<in> set (stream_history st).
                    history_id r = historyId info \<and> historyId info \<noteq> 0 \<and> history_status r = Playing \<longrightarrow>
                    r\<lparr>end_time := Some now,
                      duration_seconds := Some ((now - stream_startTime info + 500) div 1000),
                      history_status := Stopped\<rparr> \<in> set (stream_history st')))"
  using assms
  by (auto simp: post_stream_stop_def Let_def map_of_map_delete finish_history_row)
     (simp_all add: map_delete_def)

text \<open>
  The scenario of the specification: a stop at two references changes nothing; after one
  viewer has closed, a stop at one reference kills process 0, empties the table and closes
  the history row.
\<close>

theorem stop_last_closer_witness:
  "post_stream_stop False 3000 viewer (Some ''http://example.com/live/1.ts'') (Some ''ffmpeg-default'') two_viewers
     = (KeptAlive, two_viewers)
   \<and> fst (post_stream_stop False 4000 viewer (Some ''http://example.com/live/1.ts'') (Some ''ffmpeg-default'')
            (on_close_existing 3500 channel_key 0 two_viewers)) = Terminated
   \<and> killed (snd (post_stream_stop False 4000 viewer (Some ''http://example.com/live/1.ts'') (Some ''ffmpeg-default'')
            (on_close_existing 3500 channel_key 0 two_viewers))) = [0]
   \<and> activeStreamProcesses (snd (post_stream_stop False 4000 viewer (Some ''http://example.com/live/1.ts'')
            (Some ''ffmpeg-default'') (on_close_existing 3500 channel_key 0 two_viewers))) = []
   \<and> map history_status (stream_history (snd (post_stream_stop False 4000 viewer
            (Some ''http://example.com/live/1.ts'') (Some ''ffmpeg-default'')
            (on_close_existing 3500 channel_key 0 two_viewers)))) = [Stopped]"
proof -
  have k: "stop_key (userId viewer) ''http://example.com/live/1.ts'' (Some ''ffmpeg-default'') table = channel_key"
    for table
    by (simp add: stop_key_def viewer_def channel_key_def show_undefined_def)
  have one: "on_close_existing 3500 channel_key 0 two_viewers
      = two_viewers\<lparr>activeStreamProcesses := [(channel_key,
          \<lparr>process = 0, references = 1, lastAccess = 3500, stream_startTime = 1000, historyId = 1\<rparr>)]\<rparr>"
    by (simp add: on_close_existing_def two_viewers_def)
  have m2: "map_of (activeStreamProcesses two_viewers)
        (stop_key (userId viewer) ''http://example.com/live/1.ts'' (Some ''ffmpeg-default'') (activeStreamProcesses two_viewers))
      = Some \<lparr>process = 0, references = 2, lastAccess = 2000, stream_startTime = 1000, historyId = 1\<rparr>"
    unfolding k by (simp add: two_viewers_def)
  have m1: "map_of (activeStreamProcesses (on_close_existing 3500 channel_key 0 two_viewers))
        (stop_key (userId viewer) ''http://example.com/live/1.ts'' (Some ''ffmpeg-default'')
           (activeStreamProcesses (on_close_existing 3500 channel_key 0 two_viewers)))
      = Some \<lparr>process = 0, references = 1, lastAccess = 3500, stream_startTime = 1000, historyId = 1\<rparr>"
    unfolding k one by simp
  have ne: "''http://example.com/live/1.ts'' \<noteq> []" by simp
  have a: "post_stream_stop False 3000 viewer (Some ''http://example.com/live/1.ts'') (Some ''ffmpeg-default'') two_viewers
     = (KeptAlive, two_viewers)"
    using stop_last_closer [OF ne m2, of False 3000]
    by (simp add: Let_def split: prod.splits)
  obtain answer st' where p: "post_stream_stop False 4000 viewer (Some ''http://example.com/live/1.ts'')
            (Some ''ffmpeg-default'') (on_close_existing 3500 channel_key 0 two_viewers) = (answer, st')"
    by (cases "post_stream_stop False 4000 viewer (Some ''http://example.com/live/1.ts'')
            (Some ''ffmpeg-default'') (on_close_existing 3500 channel_key 0 two_viewers)")
  from stop_last_closer [OF ne m1, of False 4000] p
  have f: "answer = Terminated
     \<and> killed st' = killed (on_close_existing 3500 channel_key 0 two_viewers) @ [0]
     \<and> activeStreamProcesses st' = filter (\<lambda>e. fst e \<noteq> channel_key)
          (activeStreamProcesses (on_close_existing 3500 channel_key 0 two_viewers))
     \<and> stream_history st' = finish_history 4000
          \<lparr>process = 0, references = 1, lastAccess = 3500, stream_startTime = 1000, historyId = 1\<rparr>
          (stream_history (on_close_existing 3500 channel_key 0 two_viewers))"
    unfolding k by (simp add: Let_def)
  have b: "answer = Terminated \<and> killed st' = [0] \<and> activeStreamProcesses st' = []
     \<and> map history_status (stream_history st') = [Stopped]"
    using f unfolding one by (simp add: two_viewers_def finish_history_def)
  from a b show ?thesis unfolding p by simp
qed

subsection \<open>The janitor\<close>

text \<open>
  Claim C6.  One sweep at \<open>now\<close> removes from the table exactly the entries with
  \<open>references \<le> 0\<close> and \<open>now - lastAccess > 30000\<close>, whether or not killing their process
  throws; it sends SIGKILL to the processes of those entries (those for which the kill does
  not throw are recorded as killed) and closes their history rows.  So an
  entry survives every sweep up to \<open>lastAccess + 30000\<close>, and for an entry at
  \<open>references \<le> 0\<close> one of the runs of the 60-second interval falls no later than
  \<open>lastAccess + 30000 + 60000\<close> and removes it.  (The interval is taken to fire on time.)
\<close>

theorem janitor_sweep:
  assumes "distinct (map fst (activeStreamProcesses st))"
  shows "let st' = cleanupInactiveStreams kill_throws now st;
             gone = (\<lambda>e. references (snd e) \<le> 0 \<and> now - lastAccess (snd e) > 30000)
         in activeStreamProcesses st' = filter (\<lambda>e. \<not> gone e) (activeStreamProcesses st)
          \<and> killed st' = killed st @ map (\<lambda>e. process (snd e))
                 (filter (\<lambda>e. gone e \<and> \<not> kill_throws (process (snd e))) (activeStreamProcesses st))
          \<and> stream_history st' = fold (\<lambda>e rows. if gone e then finish_history now (snd e) rows else rows)
                 (activeStreamProcesses st) (stream_history st)
          \<and> (\<forall>e \<in> set (activeStreamProcesses st).
                now \<le> lastAccess (snd e) + 30000 \<longrightarrow> e \<in> set (activeStreamProcesses st'))
          \<and> (\<forall>e \<in> set (activeStreamProcesses st). \<forall>start.
                references (snd e) \<le> 0 \<and> start \<le> lastAccess (snd e) + 30000 \<longrightarrow>
                (\<exists>n. janitor_run start n \<le> lastAccess (snd e) + 30000 + 60000
                   \<and> fst e \<notin> fst ` set (activeStreamProcesses
                        (cleanupInactiveStreams kill_throws (janitor_run start n) st))))"
proof -
  have g: "(\<lambda>e. stale t (snd e)) = (\<lambda>e. references (snd e) \<le> 0 \<and> t - lastAccess (snd e) > 30000)" for t
    by (simp add: stale_def STREAM_INACTIVITY_TIMEOUT_def)
  have table: "activeStreamProcesses (cleanupInactiveStreams kt t st)
        = filter (\<lambda>e. \<not> stale t (snd e)) (activeStreamProcesses st)" for kt t
    unfolding cleanupInactiveStreams_def
    using sweep_result [of kt t "activeStreamProcesses st" st] stale_keys_distinct [OF assms, of t]
    by simp
  have a: "activeStreamProcesses (cleanupInactiveStreams kill_throws now st)
        = filter (\<lambda>e. \<not> (references (snd e) \<le> 0 \<and> now - lastAccess (snd e) > 30000)) (activeStreamProcesses st)"
    unfolding table by (simp add: stale_def STREAM_INACTIVITY_TIMEOUT_def)
  have b: "killed (cleanupInactiveStreams kill_throws now st) = killed st @ map (\<lambda>e. process (snd e))
                 (filter (\<lambda>e. (references (snd e) \<le> 0 \<and> now - lastAccess (snd e) > 30000)
                     \<and> \<not> kill_throws (process (snd e))) (activeStreamProcesses st))"
    unfolding cleanupInactiveStreams_def
    using sweep_result [of kill_throws now "activeStreamProcesses st" st]
    by (simp add: stale_def STREAM_INACTIVITY_TIMEOUT_def)
  have c: "stream_history (cleanupInactiveStreams kill_throws now st)
        = fold (\<lambda>e rows. if references (snd e) \<le> 0 \<and> now - lastAccess (snd e) > 30000
                           then finish_history now (snd e) rows else rows)
                 (activeStreamProcesses st) (stream_history st)"
    unfolding cleanupInactiveStreams_def
    using sweep_result [of kill_throws now "activeStreamProcesses st" st]
    by (simp add: stale_def STREAM_INACTIVITY_TIMEOUT_def)
  have d: "\<forall>e \<in> set (activeStreamProcesses st).
                now \<le> lastAccess (snd e) + 30000 \<longrightarrow> e \<in> set (activeStreamProcesses (cleanupInactiveStreams kill_throws now st))"
    unfolding a by auto
  have e: "\<forall>e \<in> set (activeStreamProcesses st). \<forall>start.
                references (snd e) \<le> 0 \<and> start \<le> lastAccess (snd e) + 30000 \<longrightarrow>
                (\<exists>n. janitor_run start n \<le> lastAccess (snd e) + 30000 + 60000
                   \<and> fst e \<notin> fst ` set (activeStreamProcesses
                        (cleanupInactiveStreams kill_throws (janitor_run start n) st)))"
  proof (intro ballI allI impI)
    fix e start
    assume e: "e \<in> set (activeStreamProcesses st)"
      and r: "references (snd e) \<le> 0 \<and> start \<le> lastAccess (snd e) + 30000"
    from janitor_period [of start "lastAccess (snd e)"] r obtain n where
      n: "lastAccess (snd e) + 30000 < janitor_run start n"
         "janitor_run start n \<le> lastAccess (snd e) + 30000 + 60000" by blast
    from r n have st: "stale (janitor_run start n) (snd e)"
      by (simp add: stale_def STREAM_INACTIVITY_TIMEOUT_def)
    have "fst e \<notin> fst ` set (activeStreamProcesses (cleanupInactiveStreams kill_throws (janitor_run start n) st))"
    proof
      assume "fst e \<in> fst ` set (activeStreamProcesses (cleanupInactiveStreams kill_throws (janitor_run start n) st))"
      then obtain x where x: "x \<in> set (activeStreamProcesses st)" "\<not> stale (janitor_run start n) (snd x)" "fst x = fst e"
        unfolding table by (auto simp: image_iff)
      from x(1) have "(fst x, snd x) \<in> set (activeStreamProcesses st)" by simp
      moreover from e x(3) have "(fst x, snd e) \<in> set (activeStreamProcesses st)" by simp
      ultimately have "snd x = snd e" using assms by (rule eq_key_imp_eq_value [rotated])
      with x(2) st show False by simp
    qed
    with n show "\<exists>n. janitor_run start n \<le> lastAccess (snd e) + 30000 + 60000
                   \<and> fst e \<notin> fst ` set (activeStreamProcesses
                        (cleanupInactiveStreams kill_throws (janitor_run start n) st))" by blast
  qed
  from a b c d e show ?thesis unfolding Let_def by (intro conjI)
qed

text \<open>
  At 31001 ms the idle stream goes although its kill throws, and the watched one stays;
  at exactly 31000 ms nothing is removed.
\<close>

theorem janitor_sweep_witness:
  "map fst (activeStreamProcesses (cleanupInactiveStreams (\<lambda>p. True) 31001 idle_and_watched))
     = [''2::http://example.com/live/1.ts::ffmpeg-default'']
   \<and> killed (cleanupInactiveStreams (\<lambda>p. True) 31001 idle_and_watched) = []
   \<and> killed (cleanupInactiveStreams (\<lambda>p. False) 31001 idle_and_watched) = [0]
   \<and> activeStreamProcesses (cleanupInactiveStreams (\<lambda>p. False) 31000 idle_and_watched)
     = activeStreamProcesses idle_and_watched"
proof -
  have d: "distinct (map fst (activeStreamProcesses idle_and_watched))"
    by (simp add: idle_and_watched_def)
  from janitor_sweep [OF d, of "\<lambda>p. True" 31001] janitor_sweep [OF d, of "\<lambda>p. False" 31001]
    janitor_sweep [OF d, of "\<lambda>p. False" 31000]
  show ?thesis
    by (simp add: Let_def idle_and_watched_def)
qed

section \<open>Properties of the command templates\<close>

subsection \<open>Substitution\<close>













subsection \<open>Splitting into arguments\<close>















subsection \<open>From the template to the argument vector\<close>



end
